theory Spec2Isabelle
  imports Complex_Main "HOL-Library.Sublist"
begin

section \<open>Python values and exceptions\<close>

text \<open>
  The scheduler of \<^verbatim>\<open>owrx/service/schedule.py\<close> reads its configuration from
  dictionaries that come out of a JSON settings store. The values that can stand in
  such a dictionary are modelled by \<open>pyval\<close>: strings, integers, lists and
  dictionaries (an association list in insertion order; keys are strings, as in JSON).
  Strings are ASCII character lists; floats, booleans and \<^verbatim>\<open>None\<close> values are not
  part of the model.
\<close>

datatype pyval =
    VStr string
  | VInt int
  | VList "pyval list"
  | VDict "(string \<times> pyval) list"

datatype py_error = KeyError | ValueError | TypeError | AttributeError | IndexError | RuntimeError

text \<open>Truthiness (\<^verbatim>\<open>if x:\<close> / \<^verbatim>\<open>not x\<close>).\<close>

fun py_truthy :: "pyval \<Rightarrow> bool" where
  "py_truthy (VStr s) = (s \<noteq> [])"
| "py_truthy (VInt n) = (n \<noteq> 0)"
| "py_truthy (VList l) = (l \<noteq> [])"
| "py_truthy (VDict d) = (d \<noteq> [])"

text \<open>\<^verbatim>\<open>k in v\<close> for a string \<open>k\<close>: key test on a dictionary, substring test on a
  string, membership on a list, \<^verbatim>\<open>TypeError\<close> on an integer.\<close>

fun py_contains :: "pyval \<Rightarrow> string \<Rightarrow> py_error + bool" where
  "py_contains (VDict d) k = Inr (k \<in> set (map fst d))"
| "py_contains (VStr s) k = Inr (sublist k s)"
| "py_contains (VList l) k = Inr (VStr k \<in> set l)"
| "py_contains (VInt n) k = Inl TypeError"

text \<open>\<^verbatim>\<open>v[k]\<close> for a string \<open>k\<close>: \<^verbatim>\<open>KeyError\<close> on a dictionary without the key,
  \<^verbatim>\<open>TypeError\<close> on everything that is not a dictionary.\<close>

fun py_getitem :: "pyval \<Rightarrow> string \<Rightarrow> py_error + pyval" where
  "py_getitem (VDict d) k = (case map_of d k of None \<Rightarrow> Inl KeyError | Some v \<Rightarrow> Inr v)"
| "py_getitem (VStr s) k = Inl TypeError"
| "py_getitem (VList l) k = Inl TypeError"
| "py_getitem (VInt n) k = Inl TypeError"

text \<open>\<^verbatim>\<open>len(v)\<close> and \<^verbatim>\<open>v[i]\<close> for a non-negative integer \<open>i\<close>. A dictionary has string
  keys only, so an integer subscript is a \<^verbatim>\<open>KeyError\<close>.\<close>

fun py_len :: "pyval \<Rightarrow> py_error + nat" where
  "py_len (VStr s) = Inr (length s)"
| "py_len (VList l) = Inr (length l)"
| "py_len (VDict d) = Inr (length d)"
| "py_len (VInt n) = Inl TypeError"

fun py_index :: "pyval \<Rightarrow> nat \<Rightarrow> py_error + pyval" where
  "py_index (VList l) i = (if i < length l then Inr (l ! i) else Inl IndexError)"
| "py_index (VStr s) i = (if i < length s then Inr (VStr [s ! i]) else Inl IndexError)"
| "py_index (VDict d) i = Inl KeyError"
| "py_index (VInt n) i = Inl TypeError"

text \<open>\<^verbatim>\<open>v * 60\<close>: arithmetic on an integer, repetition of a string or a list,
  \<^verbatim>\<open>TypeError\<close> on a dictionary.\<close>

fun py_mul60 :: "pyval \<Rightarrow> py_error + pyval" where
  "py_mul60 (VInt n) = Inr (VInt (n * 60))"
| "py_mul60 (VStr s) = Inr (VStr (concat (replicate 60 s)))"
| "py_mul60 (VList l) = Inr (VList (concat (replicate 60 l)))"
| "py_mul60 (VDict d) = Inl TypeError"

section \<open>Instants, times of day and durations\<close>

text \<open>
  A naive UTC \<^verbatim>\<open>datetime\<close> is the integer number of microseconds since the epoch, a
  \<^verbatim>\<open>time\<close> the number of microseconds since midnight, a \<^verbatim>\<open>date\<close> a day number and a
  \<^verbatim>\<open>timedelta\<close> a number of microseconds. The range limits of the Python types
  (years 1 to 9999) are not modelled.
\<close>

definition seconds :: "int \<Rightarrow> int" where
  "seconds n = n * 1000000"

definition hours :: "int \<Rightarrow> int" where
  "hours n = n * 3600000000"

definition days :: "int \<Rightarrow> int" where
  "days n = n * 86400000000"

definition date_of :: "int \<Rightarrow> int" where
  "date_of dt = dt div days 1"

definition time_of :: "int \<Rightarrow> int" where
  "time_of dt = dt mod days 1"

definition combine :: "int \<Rightarrow> int \<Rightarrow> int" where
  "combine d t = days d + t"

text \<open>A clock time \<open>h:m\<close> as a time of day.\<close>

definition hm :: "nat \<Rightarrow> nat \<Rightarrow> int" where
  "hm h m = seconds (int (h * 3600 + m * 60))"

subsection \<open>\<^verbatim>\<open>datetime.strptime(s, "%H%M")\<close>\<close>

text \<open>
  \<^verbatim>\<open>strptime\<close> compiles the format to the regular expression
  \<^verbatim>\<open>(?P<H>2[0-3]|[0-1]\d|\d)(?P<M>[0-5]\d|\d)\<close>, matches it at the start of the
  input (alternatives in the order written, with backtracking), and raises
  \<^verbatim>\<open>ValueError\<close> when nothing matches or when the first match leaves input unread.
\<close>

definition is_digit :: "char \<Rightarrow> bool" where
  "is_digit c = (48 \<le> (of_char c :: nat) \<and> (of_char c :: nat) \<le> 57)"

definition digit_val :: "char \<Rightarrow> nat" where
  "digit_val c = of_char c - 48"

fun match_H :: "string \<Rightarrow> (nat \<times> string) list" where
  "match_H (c1 # c2 # r) =
     (if c1 = CHR ''2'' \<and> is_digit c2 \<and> digit_val c2 \<le> 3 then [(20 + digit_val c2, r)] else []) @
     (if (c1 = CHR ''0'' \<or> c1 = CHR ''1'') \<and> is_digit c2
      then [(10 * digit_val c1 + digit_val c2, r)] else []) @
     (if is_digit c1 then [(digit_val c1, c2 # r)] else [])"
| "match_H [c1] = (if is_digit c1 then [(digit_val c1, [])] else [])"
| "match_H [] = []"

fun match_M :: "string \<Rightarrow> (nat \<times> string) list" where
  "match_M (c1 # c2 # r) =
     (if is_digit c1 \<and> digit_val c1 \<le> 5 \<and> is_digit c2
      then [(10 * digit_val c1 + digit_val c2, r)] else []) @
     (if is_digit c1 then [(digit_val c1, c2 # r)] else [])"
| "match_M [c1] = (if is_digit c1 then [(digit_val c1, [])] else [])"
| "match_M [] = []"

definition strptime_HM :: "string \<Rightarrow> py_error + int" where
  "strptime_HM s =
     (case concat (map (\<lambda>(h, r). map (\<lambda>(m, r'). (h, m, r')) (match_M r)) (match_H s)) of
        [] \<Rightarrow> Inl ValueError
      | (h, m, r) # _ \<Rightarrow> if r = [] then Inr (hm h m) else Inl ValueError)"

section \<open>Schedule entries\<close>

text \<open>
  The three subclasses of \<^verbatim>\<open>ScheduleEntry\<close>; every constructor carries
  \<^verbatim>\<open>startTime\<close>, \<^verbatim>\<open>endTime\<close> and \<^verbatim>\<open>profile\<close>, in the order of
  \<^verbatim>\<open>ScheduleEntry.__init__\<close>. A \<open>TimeScheduleEntry\<close> holds times of day, the other two
  hold instants.
\<close>

datatype ScheduleEntry =
    TimeScheduleEntry int int pyval
  | DatetimeScheduleEntry int int pyval
  | RotationScheduleEntry int int pyval

fun startTime :: "ScheduleEntry \<Rightarrow> int" where
  "startTime (TimeScheduleEntry s e p) = s"
| "startTime (DatetimeScheduleEntry s e p) = s"
| "startTime (RotationScheduleEntry s e p) = s"

fun endTime :: "ScheduleEntry \<Rightarrow> int" where
  "endTime (TimeScheduleEntry s e p) = e"
| "endTime (DatetimeScheduleEntry s e p) = e"
| "endTime (RotationScheduleEntry s e p) = e"

fun getProfile :: "ScheduleEntry \<Rightarrow> pyval" where
  "getProfile (TimeScheduleEntry s e p) = p"
| "getProfile (DatetimeScheduleEntry s e p) = p"
| "getProfile (RotationScheduleEntry s e p) = p"

fun isCurrent :: "ScheduleEntry \<Rightarrow> int \<Rightarrow> bool" where
  "isCurrent (TimeScheduleEntry s e p) dt =
     (let t = time_of dt in
      if s < e then s \<le> t \<and> t < e else s \<le> t \<or> t < e)"
| "isCurrent (DatetimeScheduleEntry s e p) dt = (s \<le> dt \<and> dt < e)"
| "isCurrent (RotationScheduleEntry s e p) dt = (s \<le> dt \<and> dt < e)"

text \<open>The loop \<^verbatim>\<open>while t < now: t += timedelta(days=1)\<close>.\<close>

function roll_forward :: "int \<Rightarrow> int \<Rightarrow> int" where
  "roll_forward now t = (if t < now then roll_forward now (t + days 1) else t)"
  by pat_completeness auto
termination
  by (relation "measure (\<lambda>(now, t). nat (now - t))") (auto simp: days_def)

declare roll_forward.simps [simp del]

text \<open>\<^verbatim>\<open>getScheduledEnd\<close> and \<^verbatim>\<open>getNextActivation\<close> read the clock; the reading is the
  first argument.\<close>

fun getScheduledEnd :: "int \<Rightarrow> ScheduleEntry \<Rightarrow> int" where
  "getScheduledEnd now (TimeScheduleEntry s e p) = roll_forward now (combine (date_of now) e)"
| "getScheduledEnd now (DatetimeScheduleEntry s e p) = e"
| "getScheduledEnd now (RotationScheduleEntry s e p) = e"

fun getNextActivation :: "int \<Rightarrow> ScheduleEntry \<Rightarrow> int" where
  "getNextActivation now (TimeScheduleEntry s e p) = roll_forward now (combine (date_of now) s)"
| "getNextActivation now (DatetimeScheduleEntry s e p) = s"
| "getNextActivation now (RotationScheduleEntry s e p) = e"

text \<open>\<^verbatim>\<open>RotationScheduleEntry.__init__(profile, end_time)\<close>: the start is the clock
  reading at construction.\<close>

definition RotationScheduleEntry_init :: "int \<Rightarrow> pyval \<Rightarrow> int \<Rightarrow> ScheduleEntry" where
  "RotationScheduleEntry_init now profile end_time = RotationScheduleEntry now end_time profile"

section \<open>Schedules\<close>

subsection \<open>\<^verbatim>\<open>TimerangeSchedule\<close>: the queries shared by static and daylight schedules\<close>

definition timerange_getCurrentEntry :: "int \<Rightarrow> ScheduleEntry list \<Rightarrow> ScheduleEntry option" where
  "timerange_getCurrentEntry now entries =
     (case filter (\<lambda>p. isCurrent p now) entries of [] \<Rightarrow> None | c # _ \<Rightarrow> Some c)"

text \<open>\<^verbatim>\<open>sorted\<close> is stable, as \<open>sort_key\<close> is.\<close>

definition timerange_getNextEntry :: "int \<Rightarrow> ScheduleEntry list \<Rightarrow> ScheduleEntry option" where
  "timerange_getNextEntry now entries =
     (case sort_key (getNextActivation now) entries of [] \<Rightarrow> None | c # _ \<Rightarrow> Some c)"

subsection \<open>\<^verbatim>\<open>StaticSchedule\<close>\<close>

text \<open>The loop of \<^verbatim>\<open>StaticSchedule.__init__\<close> over the items of the dictionary: a key
  whose length is not 9 is logged and skipped; the two \<^verbatim>\<open>strptime\<close> calls raise
  \<^verbatim>\<open>ValueError\<close> out of the constructor.\<close>

fun static_entries :: "(string \<times> pyval) list \<Rightarrow> py_error + ScheduleEntry list" where
  "static_entries [] = Inr []"
| "static_entries ((time, profile) # rest) =
     (if length time \<noteq> 9 then static_entries rest
      else
        case strptime_HM (take 4 time) of
          Inl e \<Rightarrow> Inl e
        | Inr startT \<Rightarrow>
            (case strptime_HM (take 4 (drop 5 time)) of
               Inl e \<Rightarrow> Inl e
             | Inr endT \<Rightarrow>
                 (case static_entries rest of
                    Inl e \<Rightarrow> Inl e
                  | Inr es \<Rightarrow> Inr (TimeScheduleEntry startT endT profile # es))))"

text \<open>\<^verbatim>\<open>scheduleDict.items()\<close> exists on a dictionary only.\<close>

fun StaticSchedule_init :: "pyval \<Rightarrow> py_error + ScheduleEntry list" where
  "StaticSchedule_init (VDict d) = static_entries d"
| "StaticSchedule_init (VStr s) = Inl AttributeError"
| "StaticSchedule_init (VInt n) = Inl AttributeError"
| "StaticSchedule_init (VList l) = Inl AttributeError"

subsection \<open>\<^verbatim>\<open>DaylightSchedule\<close>\<close>

text \<open>
  \<^verbatim>\<open>getSunTimes\<close> computes with floating-point numbers, which are modelled by real
  numbers. \<^verbatim>\<open>math.sin\<close>, \<^verbatim>\<open>math.cos\<close> and \<^verbatim>\<open>math.tan\<close> return a value for every
  number; \<^verbatim>\<open>math.asin\<close> and \<^verbatim>\<open>math.acos\<close> raise \<^verbatim>\<open>ValueError\<close> (math domain error)
  for an argument outside \<open>[-1, 1]\<close>.
\<close>

definition py_asin :: "real \<Rightarrow> py_error + real" where
  "py_asin x = (if - 1 \<le> x \<and> x \<le> 1 then Inr (arcsin x) else Inl ValueError)"

definition py_acos :: "real \<Rightarrow> py_error + real" where
  "py_acos x = (if - 1 \<le> x \<and> x \<le> 1 then Inr (arccos x) else Inl ValueError)"

text \<open>\<^verbatim>\<open>date.timetuple().tm_yday\<close>: the day of the year, from 1, of a day number (days
  since 1 January 1970) in the proleptic Gregorian calendar. \<open>doe\<close> is the day within
  the 400-year cycle that starts on a 1 March, \<open>yoe\<close> the year within the cycle and
  \<open>doy\<close> the day, from 0, of the year that starts on 1 March.\<close>

definition tm_yday :: "int \<Rightarrow> int" where
  "tm_yday d =
     (let doe = (d + 719468) mod 146097;
          yoe = (doe - doe div 1460 + doe div 36524 - doe div 146096) div 365;
          doy = doe - (365 * yoe + yoe div 4 - yoe div 100)
      in if doy \<ge> 306 then doy - 305
         else doy + 60 + (if yoe mod 4 = 0 \<and> (yoe mod 100 \<noteq> 0 \<or> yoe = 0) then 1 else 0))"

text \<open>\<^verbatim>\<open>timedelta(hours=h)\<close> for a float \<open>h\<close>: the duration is rounded to the nearest
  microsecond, a tie to the even one.\<close>

definition py_round :: "real \<Rightarrow> int" where
  "py_round x =
     (let f = \<lfloor>x\<rfloor>; r = x - of_int f in
      if r < 1 / 2 then f else if 1 / 2 < r then f + 1 else if even f then f else f + 1)"

definition timedelta_hours :: "real \<Rightarrow> int" where
  "timedelta_hours h = py_round (h * 3600000000)"

text \<open>The argument that \<^verbatim>\<open>getSunTimes\<close> passes to \<^verbatim>\<open>math.acos\<close>, for a latitude in
  degrees and a day number.\<close>

definition acos_argument :: "real \<Rightarrow> int \<Rightarrow> real" where
  "acos_argument lat date =
     - tan (lat * (pi / 180)) *
       tan (arcsin (sin (23.45 * (pi / 180)) * sin (2 * pi * (of_int (tm_yday date) - 81) / 365)))"

text \<open>
  \<^verbatim>\<open>getSunTimes\<close>. The receiver position \<open>lat\<close>, \<open>lng\<close> is read from the global
  configuration, which is not part of this module, and is a parameter here.
\<close>

definition getSunTimes :: "real \<Rightarrow> real \<Rightarrow> int \<Rightarrow> py_error + int \<times> int" where
  "getSunTimes lat lng date =
     (let degtorad = pi / 180;
          radtodeg = 180 / pi;
          days = tm_yday date;
          longCorr = 4 * lng;
          b = 2 * pi * (of_int days - 81) / 365;
          eoTCorr = 9.87 * sin (2 * b) - 7.53 * cos b - 1.5 * sin b;
          solarCorr = longCorr + eoTCorr
      in case py_asin (sin (23.45 * degtorad) * sin b) of
           Inl e \<Rightarrow> Inl e
         | Inr declination \<Rightarrow>
             (case py_acos (- tan (lat * degtorad) * tan declination) of
                Inl e \<Rightarrow> Inl e
              | Inr ha1 \<Rightarrow>
                  (case py_acos (- tan (lat * degtorad) * tan declination) of
                     Inl e \<Rightarrow> Inl e
                   | Inr ha2 \<Rightarrow>
                       (let sunrise = 12 - ha1 * radtodeg / 15 - solarCorr / 60;
                            sunset = 12 + ha2 * radtodeg / 15 - solarCorr / 60;
                            midnight = combine date 0
                        in Inr (midnight + timedelta_hours sunrise,
                                midnight + timedelta_hours sunset)))))"

text \<open>
  \<^verbatim>\<open>getEntries\<close> and the queries built on it take the sun-time function as a parameter
  \<open>sun\<close>, which maps a day number to the sunrise and sunset instants of that day, or
  raises; for a receiver at \<open>lat\<close>, \<open>lng\<close> it is \<open>getSunTimes lat lng\<close>. The
  \<^verbatim>\<open>while len(events) < 1\<close> loop of \<^verbatim>\<open>getEntries\<close> has no bound of its own, so it is a
  partial function: \<open>None\<close> is a loop that never ends.
\<close>

datatype sun_event = Sunrise | Sunset

partial_function (option) daylight_events ::
  "(int \<Rightarrow> py_error + int \<times> int) \<Rightarrow> int \<Rightarrow> int \<Rightarrow> int \<Rightarrow> int \<Rightarrow> (sun_event \<times> int) list
     \<Rightarrow> (py_error + (sun_event \<times> int) list) option" where
  "daylight_events sun now delta date offset events =
     (if length events < 1 then
        (case sun (date + offset) of
           Inl e \<Rightarrow> Some (Inl e)
         | Inr suntimes \<Rightarrow>
             daylight_events sun now delta date (offset + 1)
               (filter (\<lambda>v. snd v + delta > now)
                  (events @ [(Sunrise, fst suntimes), (Sunset, snd suntimes)])))
      else Some (Inr events))"

declare daylight_events.simps [code]

fun daylight_build ::
  "pyval \<Rightarrow> bool \<Rightarrow> int \<Rightarrow> int \<Rightarrow> int option \<Rightarrow> (sun_event \<times> int) list
     \<Rightarrow> py_error + ScheduleEntry list" where
  "daylight_build sched useGreyline delta now previousEvent [] = Inr []"
| "daylight_build sched useGreyline delta now previousEvent ((ty, t) # rest) =
     (let stype = (if ty = Sunrise then ''night'' else ''day'') in
      case py_contains sched stype of
        Inl e \<Rightarrow> Inl e
      | Inr has \<Rightarrow>
          (case (if has \<and> (previousEvent \<noteq> None \<or> t - delta > now)
                 then (case py_getitem sched stype of
                         Inl e \<Rightarrow> Inl e
                       | Inr p \<Rightarrow>
                           Inr [DatetimeScheduleEntry
                                  (case previousEvent of None \<Rightarrow> now | Some pe \<Rightarrow> pe)
                                  (t - delta) p])
                 else Inr []) of
             Inl e \<Rightarrow> Inl e
           | Inr es1 \<Rightarrow>
               (case (if useGreyline
                      then (case py_getitem sched ''greyline'' of
                              Inl e \<Rightarrow> Inl e
                            | Inr g \<Rightarrow> Inr [DatetimeScheduleEntry (t - delta) (t + delta) g])
                      else Inr []) of
                  Inl e \<Rightarrow> Inl e
                | Inr es2 \<Rightarrow>
                    (case daylight_build sched useGreyline delta now (Some (t + delta)) rest of
                       Inl e \<Rightarrow> Inl e
                     | Inr es \<Rightarrow> Inr (es1 @ es2 @ es)))))"

definition daylight_getEntries ::
  "(int \<Rightarrow> py_error + int \<times> int) \<Rightarrow> int \<Rightarrow> pyval \<Rightarrow> (py_error + ScheduleEntry list) option" where
  "daylight_getEntries sun now sched =
     (case py_contains sched ''greyline'' of
        Inl e \<Rightarrow> Some (Inl e)
      | Inr useGreyline \<Rightarrow>
          (let delta = (if useGreyline then hours 1 else 0) in
           case daylight_events sun now delta (date_of now) (- 1) [] of
             None \<Rightarrow> None
           | Some (Inl e) \<Rightarrow> Some (Inl e)
           | Some (Inr events) \<Rightarrow>
               Some (daylight_build sched useGreyline delta now None (sort_key snd events))))"

subsection \<open>\<^verbatim>\<open>RotationSchedule\<close>\<close>

record RotationSchedule =
  profiles :: pyval
  interval :: pyval
  current_index :: nat
  current_end_time :: "int option"

definition RotationSchedule_init :: "pyval \<Rightarrow> py_error + RotationSchedule" where
  "RotationSchedule_init scheduleDict =
     (case py_contains scheduleDict ''profiles'' of
        Inl e \<Rightarrow> Inl e
      | Inr has_profiles \<Rightarrow>
     (case (if has_profiles then py_getitem scheduleDict ''profiles'' else Inr (VList [])) of
        Inl e \<Rightarrow> Inl e
      | Inr ps \<Rightarrow>
     (case py_contains scheduleDict ''interval'' of
        Inl e \<Rightarrow> Inl e
      | Inr has_interval \<Rightarrow>
     (case (if has_interval then py_getitem scheduleDict ''interval'' else Inr (VInt 5)) of
        Inl e \<Rightarrow> Inl e
      | Inr minutes \<Rightarrow>
     (case py_mul60 minutes of
        Inl e \<Rightarrow> Inl e
      | Inr secs \<Rightarrow>
          Inr \<lparr>profiles = ps, interval = secs, current_index = 0, current_end_time = None\<rparr>)))))"

text \<open>\<^verbatim>\<open>timedelta(seconds=v)\<close> takes a number.\<close>

fun timedelta_seconds :: "pyval \<Rightarrow> py_error + int" where
  "timedelta_seconds (VInt n) = Inr (seconds n)"
| "timedelta_seconds (VStr s) = Inl TypeError"
| "timedelta_seconds (VList l) = Inl TypeError"
| "timedelta_seconds (VDict d) = Inl TypeError"

text \<open>Both queries return the schedule object as they leave it, also when they raise.\<close>

definition rotation_getCurrentEntry ::
  "int \<Rightarrow> RotationSchedule \<Rightarrow> (py_error + ScheduleEntry option) \<times> RotationSchedule" where
  "rotation_getCurrentEntry now r =
     (if \<not> py_truthy (profiles r) then (Inr None, r)
      else
        case (if (case current_end_time r of None \<Rightarrow> False | Some t \<Rightarrow> now \<ge> t)
              then (case py_len (profiles r) of
                      Inl e \<Rightarrow> Inl e
                    | Inr n \<Rightarrow>
                        Inr (r\<lparr>current_index := (current_index r + 1) mod n,
                               current_end_time := None\<rparr>))
              else Inr r) of
          Inl e \<Rightarrow> (Inl e, r)
        | Inr r1 \<Rightarrow>
            (case (case current_end_time r1 of
                     None \<Rightarrow>
                       (case timedelta_seconds (interval r1) of
                          Inl e \<Rightarrow> Inl e
                        | Inr d \<Rightarrow> Inr (now + d))
                   | Some t \<Rightarrow> Inr t) of
               Inl e \<Rightarrow> (Inl e, r1)
             | Inr t \<Rightarrow>
                 (let r2 = r1\<lparr>current_end_time := Some t\<rparr> in
                  case py_index (profiles r2) (current_index r2) of
                    Inl e \<Rightarrow> (Inl e, r2)
                  | Inr p \<Rightarrow> (Inr (Some (RotationScheduleEntry_init now p t)), r2))))"

definition rotation_getNextEntry ::
  "int \<Rightarrow> RotationSchedule \<Rightarrow> (py_error + ScheduleEntry option) \<times> RotationSchedule" where
  "rotation_getNextEntry now r =
     (if \<not> py_truthy (profiles r) then (Inr None, r)
      else
        case py_len (profiles r) of
          Inl e \<Rightarrow> (Inl e, r)
        | Inr n \<Rightarrow>
            (let next_index = (current_index r + 1) mod n;
                 next_start = (case current_end_time r of Some t \<Rightarrow> t | None \<Rightarrow> now)
             in case timedelta_seconds (interval r) of
                  Inl e \<Rightarrow> (Inl e, r)
                | Inr d \<Rightarrow>
                    (let next_end = next_start + d
                     in case py_index (profiles r) next_index of
                          Inl e \<Rightarrow> (Inl e, r)
                        | Inr p \<Rightarrow> (Inr (Some (RotationScheduleEntry_init now p next_end)), r))))"

subsection \<open>\<^verbatim>\<open>Schedule.parse\<close> and the dispatch of the two queries\<close>

datatype Schedule =
    Static "ScheduleEntry list"
  | Daylight pyval
  | Rotation RotationSchedule

text \<open>\<open>Inr None\<close> is the \<^verbatim>\<open>None\<close> that \<^verbatim>\<open>parse\<close> returns by falling off its end.\<close>

definition parse :: "(string \<times> pyval) list \<Rightarrow> py_error + Schedule option" where
  "parse props =
     (case map_of props ''scheduler'' of
        Some sc \<Rightarrow>
          (case py_contains sc ''type'' of
             Inl e \<Rightarrow> Inl e
           | Inr has_type \<Rightarrow>
          (case (if has_type then py_getitem sc ''type'' else Inr (VStr ''static'')) of
             Inl e \<Rightarrow> Inl e
           | Inr t \<Rightarrow>
               if t = VStr ''static'' then
                 (case py_getitem sc ''schedule'' of
                    Inl e \<Rightarrow> Inl e
                  | Inr d \<Rightarrow>
                      (case StaticSchedule_init d of
                         Inl e \<Rightarrow> Inl e
                       | Inr es \<Rightarrow> Inr (Some (Static es))))
               else if t = VStr ''daylight'' then
                 (case py_getitem sc ''schedule'' of
                    Inl e \<Rightarrow> Inl e
                  | Inr d \<Rightarrow> Inr (Some (Daylight d)))
               else if t = VStr ''rotation'' then
                 (case py_getitem sc ''schedule'' of
                    Inl e \<Rightarrow> Inl e
                  | Inr d \<Rightarrow>
                      (case RotationSchedule_init d of
                         Inl e \<Rightarrow> Inl e
                       | Inr r \<Rightarrow> Inr (Some (Rotation r))))
               else Inr None))
      | None \<Rightarrow>
          (case map_of props ''schedule'' of
             Some d \<Rightarrow>
               (case StaticSchedule_init d of
                  Inl e \<Rightarrow> Inl e
                | Inr es \<Rightarrow> Inr (Some (Static es)))
           | None \<Rightarrow> Inr None))"

text \<open>A call that touches state ends in one of three ways.\<close>

datatype 'a outcome = Returns 'a | Raises py_error | Diverges

definition getCurrentEntry ::
  "(int \<Rightarrow> py_error + int \<times> int) \<Rightarrow> int \<Rightarrow> Schedule \<Rightarrow> ScheduleEntry option outcome \<times> Schedule" where
  "getCurrentEntry sun now sch =
     (case sch of
        Static entries \<Rightarrow> (Returns (timerange_getCurrentEntry now entries), sch)
      | Daylight d \<Rightarrow>
          (case daylight_getEntries sun now d of
             None \<Rightarrow> (Diverges, sch)
           | Some (Inl e) \<Rightarrow> (Raises e, sch)
           | Some (Inr entries) \<Rightarrow> (Returns (timerange_getCurrentEntry now entries), sch))
      | Rotation r \<Rightarrow>
          (case rotation_getCurrentEntry now r of
             (Inl e, r') \<Rightarrow> (Raises e, Rotation r')
           | (Inr c, r') \<Rightarrow> (Returns c, Rotation r')))"

definition getNextEntry ::
  "(int \<Rightarrow> py_error + int \<times> int) \<Rightarrow> int \<Rightarrow> Schedule \<Rightarrow> ScheduleEntry option outcome \<times> Schedule" where
  "getNextEntry sun now sch =
     (case sch of
        Static entries \<Rightarrow> (Returns (timerange_getNextEntry now entries), sch)
      | Daylight d \<Rightarrow>
          (case daylight_getEntries sun now d of
             None \<Rightarrow> (Diverges, sch)
           | Some (Inl e) \<Rightarrow> (Raises e, sch)
           | Some (Inr entries) \<Rightarrow> (Returns (timerange_getNextEntry now entries), sch))
      | Rotation r \<Rightarrow>
          (case rotation_getNextEntry now r of
             (Inl e, r') \<Rightarrow> (Raises e, Rotation r')
           | (Inr c, r') \<Rightarrow> (Returns c, Rotation r')))"

section \<open>\<^verbatim>\<open>ServiceScheduler\<close>\<close>

subsection \<open>The managed source, the timers and the state of a scheduler\<close>

text \<open>
  Modelled from the spec: the enumerations of \<^verbatim>\<open>owrx.source\<close>, a module that is not
  among the sources. Only the members that \<^verbatim>\<open>schedule.py\<close> names are listed apart;
  every other lifecycle state is an \<open>OtherSourceState\<close>.
\<close>

datatype SdrSourceState = STOPPING | OtherSourceState nat

datatype SdrBusyState = IDLE | BUSY

datatype SdrClientClass = INACTIVE | BACKGROUND | USER

text \<open>
  The source is an external collaborator. Its interface is a parameter: queries read
  the source's state \<open>'src\<close>, commands change it and may raise. Commands do not call
  back into the scheduler; the events that a source emits are separate steps
  (see \<open>handle\<close> below).
\<close>

record 'src SdrSource =
  isEnabled :: "'src \<Rightarrow> bool"
  isFailed :: "'src \<Rightarrow> bool"
  hasClients :: "SdrClientClass \<Rightarrow> 'src \<Rightarrow> bool"
  getProps :: "'src \<Rightarrow> (string \<times> pyval) list"
  activateProfile :: "pyval \<Rightarrow> 'src \<Rightarrow> py_error option \<times> 'src"
  start :: "'src \<Rightarrow> py_error option \<times> 'src"
  checkStatus :: "'src \<Rightarrow> py_error option \<times> 'src"

text \<open>
  A \<^verbatim>\<open>threading.Timer\<close> that has been started waits until it is cancelled or until
  its delay has passed and it runs its callback. \<open>delay\<close> is in microseconds,
  \<open>started_at\<close> is the instant of \<^verbatim>\<open>start()\<close>.
\<close>

datatype timer_status = Waiting | Cancelled | Fired

record Timer =
  delay :: int
  started_at :: int
  status :: timer_status

text \<open>The commands that a scheduler issues to its source and to its subscriptions.\<close>

datatype source_call =
    AddClient
  | RemoveClient
  | ActivateProfile pyval
  | Start
  | CheckStatus
  | CancelSubscription nat

text \<open>
  The fields of a \<^verbatim>\<open>ServiceScheduler\<close>, together with the world it acts on: the state
  of its source, every timer it has created (a timer's handle is its position in
  \<open>timers\<close>) and the commands it has issued, oldest first.
\<close>

record 'src ServiceScheduler =
  source :: 'src
  selectionTimer :: "nat option"
  currentEntry :: "ScheduleEntry option"
  schedule :: "Schedule option"
  subscriptions :: "nat list"
  timers :: "Timer list"
  calls :: "source_call list"

definition ServiceScheduler_init :: "'src \<Rightarrow> 'src ServiceScheduler" where
  "ServiceScheduler_init src =
     \<lparr>source = src, selectionTimer = None, currentEntry = None, schedule = None,
      subscriptions = [0, 1], timers = [], calls = [AddClient]\<rparr>"

subsection \<open>Arming and cancelling the timer\<close>

text \<open>\<^verbatim>\<open>Timer.cancel()\<close> stops a waiting timer and does nothing to any other.\<close>

definition timer_cancel :: "nat \<Rightarrow> Timer list \<Rightarrow> Timer list" where
  "timer_cancel h ts =
     (if h < length ts \<and> status (ts ! h) = Waiting then ts[h := (ts ! h)\<lparr>status := Cancelled\<rparr>]
      else ts)"

definition cancelTimer :: "'src ServiceScheduler \<Rightarrow> 'src ServiceScheduler" where
  "cancelTimer s =
     (case selectionTimer s of
        None \<Rightarrow> s
      | Some h \<Rightarrow> s\<lparr>timers := timer_cancel h (timers s)\<rparr>)"

definition scheduleSelection ::
  "'src SdrSource \<Rightarrow> int \<Rightarrow> int option \<Rightarrow> 'src ServiceScheduler \<Rightarrow> 'src ServiceScheduler" where
  "scheduleSelection S now time s =
     (if \<not> isEnabled S (source s) \<or> isFailed S (source s) then s
      else
        let secs = (case time of None \<Rightarrow> seconds 10 | Some t \<Rightarrow> t - now);
            s1 = cancelTimer s
        in s1\<lparr>timers := timers s1 @ [\<lparr>delay = secs, started_at = now, status = Waiting\<rparr>],
              selectionTimer := Some (length (timers s1))\<rparr>)"

text \<open>
  \<^verbatim>\<open>scheduleSelection\<close> holds no lock. Its body in the two steps between which another
  thread can run: the guard, the delay and \<^verbatim>\<open>cancelTimer()\<close> (lines 294 to 300), which
  yield the delay unless the guard returns; then the creation, the assignment and the
  start of the new timer (lines 301 and 302).
\<close>

definition scheduleSelection_prepare ::
  "'src SdrSource \<Rightarrow> int \<Rightarrow> int option \<Rightarrow> 'src ServiceScheduler
     \<Rightarrow> int option \<times> 'src ServiceScheduler" where
  "scheduleSelection_prepare S now time s =
     (if \<not> isEnabled S (source s) \<or> isFailed S (source s) then (None, s)
      else (Some (case time of None \<Rightarrow> seconds 10 | Some t \<Rightarrow> t - now), cancelTimer s))"

definition scheduleSelection_arm ::
  "int \<Rightarrow> int \<Rightarrow> 'src ServiceScheduler \<Rightarrow> 'src ServiceScheduler" where
  "scheduleSelection_arm now secs s =
     s\<lparr>timers := timers s @ [\<lparr>delay = secs, started_at = now, status = Waiting\<rparr>],
       selectionTimer := Some (length (timers s))\<rparr>"

definition getClientClass :: "'src ServiceScheduler \<Rightarrow> SdrClientClass" where
  "getClientClass s = (if currentEntry s = None then INACTIVE else BACKGROUND)"

text \<open>The timers that will still run their callback, and the instant at which one does.\<close>

definition armed_timers :: "'src ServiceScheduler \<Rightarrow> Timer list" where
  "armed_timers s = filter (\<lambda>t. status t = Waiting) (timers s)"

definition fires_at :: "Timer \<Rightarrow> int" where
  "fires_at t = started_at t + delay t"

subsection \<open>Selecting a profile\<close>

definition source_checkStatus ::
  "'src SdrSource \<Rightarrow> 'src ServiceScheduler \<Rightarrow> unit outcome \<times> 'src ServiceScheduler" where
  "source_checkStatus S s =
     (case checkStatus S (source s) of
        (r, src') \<Rightarrow>
          ((case r of None \<Rightarrow> Returns () | Some e \<Rightarrow> Raises e),
           s\<lparr>source := src', calls := calls s @ [CheckStatus]\<rparr>))"

text \<open>\<^verbatim>\<open>_setCurrentEntry\<close>: the \<^verbatim>\<open>try\<close> block covers \<^verbatim>\<open>activateProfile\<close> and \<^verbatim>\<open>start\<close>
  and catches \<^verbatim>\<open>KeyError\<close> only.\<close>

definition setCurrentEntry ::
  "'src SdrSource \<Rightarrow> int \<Rightarrow> ScheduleEntry option \<Rightarrow> 'src ServiceScheduler
     \<Rightarrow> unit outcome \<times> 'src ServiceScheduler" where
  "setCurrentEntry S now entry s =
     (let s1 = s\<lparr>currentEntry := entry\<rparr> in
      case entry of
        None \<Rightarrow> source_checkStatus S s1
      | Some e \<Rightarrow>
          (let s2 = scheduleSelection S now (Some (getScheduledEnd now e)) s1 in
           case activateProfile S (getProfile e) (source s2) of
             (r3, src3) \<Rightarrow>
               (let s3 = s2\<lparr>source := src3, calls := calls s2 @ [ActivateProfile (getProfile e)]\<rparr> in
                case r3 of
                  Some exc \<Rightarrow> if exc = KeyError then source_checkStatus S s3 else (Raises exc, s3)
                | None \<Rightarrow>
                    (case start S (source s3) of
                       (r4, src4) \<Rightarrow>
                         (let s4 = s3\<lparr>source := src4, calls := calls s3 @ [Start]\<rparr> in
                          case r4 of
                            Some exc \<Rightarrow>
                              if exc = KeyError then source_checkStatus S s4 else (Raises exc, s4)
                          | None \<Rightarrow> source_checkStatus S s4)))))"

definition selectProfile ::
  "'src SdrSource \<Rightarrow> (int \<Rightarrow> py_error + int \<times> int) \<Rightarrow> int \<Rightarrow> 'src ServiceScheduler
     \<Rightarrow> unit outcome \<times> 'src ServiceScheduler" where
  "selectProfile S sun now s =
     (if hasClients S USER (source s) then (Returns (), s)
      else
        case schedule s of
          None \<Rightarrow> setCurrentEntry S now None s
        | Some sch \<Rightarrow>
            (case getCurrentEntry sun now sch of
               (Diverges, sch') \<Rightarrow> (Diverges, s\<lparr>schedule := Some sch'\<rparr>)
             | (Raises e, sch') \<Rightarrow> (Raises e, s\<lparr>schedule := Some sch'\<rparr>)
             | (Returns entry, sch') \<Rightarrow>
                 (case setCurrentEntry S now entry (s\<lparr>schedule := Some sch'\<rparr>) of
                    (Diverges, s1) \<Rightarrow> (Diverges, s1)
                  | (Raises e, s1) \<Rightarrow> (Raises e, s1)
                  | (Returns u, s1) \<Rightarrow>
                      if currentEntry s1 = None then
                        (case getNextEntry sun now sch' of
                           (Diverges, sch'') \<Rightarrow> (Diverges, s1\<lparr>schedule := Some sch''\<rparr>)
                         | (Raises e, sch'') \<Rightarrow> (Raises e, s1\<lparr>schedule := Some sch''\<rparr>)
                         | (Returns nextEntry, sch'') \<Rightarrow>
                             (case nextEntry of
                                Some ne \<Rightarrow>
                                  (Returns (),
                                   scheduleSelection S now (Some (getNextActivation now ne))
                                     (s1\<lparr>schedule := Some sch''\<rparr>))
                              | None \<Rightarrow> (Returns (), s1\<lparr>schedule := Some sch''\<rparr>)))
                      else (Returns (), s1))))"

subsection \<open>Configuration changes, lifecycle events and teardown\<close>

definition parseSchedule ::
  "'src SdrSource \<Rightarrow> int \<Rightarrow> 'src ServiceScheduler \<Rightarrow> unit outcome \<times> 'src ServiceScheduler" where
  "parseSchedule S now s =
     (case parse (getProps S (source s)) of
        Inl e \<Rightarrow> (Raises e, s)
      | Inr sch \<Rightarrow> (Returns (), scheduleSelection S now None (s\<lparr>schedule := sch\<rparr>)))"

text \<open>\<^verbatim>\<open>shutdown\<close> pops the subscriptions from the end of the list and cancels each.\<close>

definition shutdown :: "'src ServiceScheduler \<Rightarrow> 'src ServiceScheduler" where
  "shutdown s =
     (let s1 = s\<lparr>subscriptions := [],
                 calls := calls s @ map CancelSubscription (rev (subscriptions s))\<rparr>;
          s2 = cancelTimer s1
      in s2\<lparr>calls := calls s2 @ [RemoveClient]\<rparr>)"

definition onStateChange ::
  "'src SdrSource \<Rightarrow> int \<Rightarrow> SdrSourceState \<Rightarrow> 'src ServiceScheduler \<Rightarrow> 'src ServiceScheduler" where
  "onStateChange S now st s = (if st = STOPPING then scheduleSelection S now None s else s)"

definition onFail :: "'src ServiceScheduler \<Rightarrow> 'src ServiceScheduler" where
  "onFail s = shutdown s"

definition onShutdown :: "'src ServiceScheduler \<Rightarrow> 'src ServiceScheduler" where
  "onShutdown s = shutdown s"

definition onDisable :: "'src ServiceScheduler \<Rightarrow> 'src ServiceScheduler" where
  "onDisable s = cancelTimer s"

definition onEnable :: "'src SdrSource \<Rightarrow> int \<Rightarrow> 'src ServiceScheduler \<Rightarrow> 'src ServiceScheduler" where
  "onEnable S now s = scheduleSelection S now None s"

definition onBusyStateChange ::
  "'src SdrSource \<Rightarrow> int \<Rightarrow> SdrBusyState \<Rightarrow> 'src ServiceScheduler \<Rightarrow> 'src ServiceScheduler" where
  "onBusyStateChange S now st s = (if st = IDLE then scheduleSelection S now None s else s)"

definition onFrequencyChange ::
  "'src SdrSource \<Rightarrow> int \<Rightarrow> 'src ServiceScheduler \<Rightarrow> 'src ServiceScheduler" where
  "onFrequencyChange S now s = scheduleSelection S now None s"

text \<open>
  Everything that can happen to a scheduler: a call of one of its methods, the expiry
  of one of its timers (which runs \<^verbatim>\<open>selectProfile\<close> if the timer is still waiting),
  and a change of the source's own state.
\<close>

datatype 'src event =
    ParseSchedule
  | Shutdown
  | ScheduleSelection "int option"
  | CancelTimer
  | OnStateChange SdrSourceState
  | OnFail
  | OnShutdown
  | OnDisable
  | OnEnable
  | OnBusyStateChange SdrBusyState
  | OnFrequencyChange
  | SelectProfile
  | TimerExpires nat
  | SourceChanges 'src

fun handle ::
  "'src SdrSource \<Rightarrow> (int \<Rightarrow> py_error + int \<times> int) \<Rightarrow> int \<Rightarrow> 'src event \<Rightarrow> 'src ServiceScheduler
     \<Rightarrow> unit outcome \<times> 'src ServiceScheduler" where
  "handle S sun now ParseSchedule s = parseSchedule S now s"
| "handle S sun now Shutdown s = (Returns (), shutdown s)"
| "handle S sun now (ScheduleSelection time) s = (Returns (), scheduleSelection S now time s)"
| "handle S sun now CancelTimer s = (Returns (), cancelTimer s)"
| "handle S sun now (OnStateChange st) s = (Returns (), onStateChange S now st s)"
| "handle S sun now OnFail s = (Returns (), onFail s)"
| "handle S sun now OnShutdown s = (Returns (), onShutdown s)"
| "handle S sun now OnDisable s = (Returns (), onDisable s)"
| "handle S sun now OnEnable s = (Returns (), onEnable S now s)"
| "handle S sun now (OnBusyStateChange st) s = (Returns (), onBusyStateChange S now st s)"
| "handle S sun now OnFrequencyChange s = (Returns (), onFrequencyChange S now s)"
| "handle S sun now SelectProfile s = selectProfile S sun now s"
| "handle S sun now (TimerExpires h) s =
     (if h < length (timers s) \<and> status (timers s ! h) = Waiting
      then selectProfile S sun now (s\<lparr>timers := (timers s)[h := (timers s ! h)\<lparr>status := Fired\<rparr>]\<rparr>)
      else (Returns (), s))"
| "handle S sun now (SourceChanges src') s = (Returns (), s\<lparr>source := src'\<rparr>)"

text \<open>
  A serialized history of events, each with the clock reading at which it happens:
  every call runs to its end before the next one starts. The scheduler object outlives
  a call that raises, so the history goes on after it. Calls that overlap on two
  threads are not histories of this kind; for \<^verbatim>\<open>scheduleSelection\<close> they are built from
  \<open>scheduleSelection_prepare\<close> and \<open>scheduleSelection_arm\<close>.
\<close>

fun run ::
  "'src SdrSource \<Rightarrow> (int \<Rightarrow> py_error + int \<times> int) \<Rightarrow> (int \<times> 'src event) list
     \<Rightarrow> 'src ServiceScheduler \<Rightarrow> 'src ServiceScheduler" where
  "run S sun [] s = s"
| "run S sun ((now, ev) # rest) s = run S sun rest (snd (handle S sun now ev s))"

subsection \<open>A concrete source and configuration for examples\<close>

text \<open>
  A small source: it is enabled, failed or busy with interactive users as its state
  says, it knows a list of profiles (activating any other raises \<^verbatim>\<open>KeyError\<close>), and
  a broken one raises \<^verbatim>\<open>RuntimeError\<close> on every activation.
\<close>

record src_state =
  enabled :: bool
  failed :: bool
  users :: bool
  properties :: "(string \<times> pyval) list"
  known_profiles :: "pyval list"
  broken :: bool
  active_profile :: "pyval option"
  running :: bool

definition example_source :: "src_state SdrSource" where
  "example_source =
     \<lparr>isEnabled = enabled,
      isFailed = failed,
      hasClients = (\<lambda>c st. c = USER \<and> users st),
      getProps = properties,
      activateProfile = (\<lambda>p st.
         if broken st then (Some RuntimeError, st)
         else if p \<in> set (known_profiles st) then (None, st\<lparr>active_profile := Some p\<rparr>)
         else (Some KeyError, st)),
      start = (\<lambda>st. (None, st\<lparr>running := True\<rparr>)),
      checkStatus = (\<lambda>st. (None, st))\<rparr>"

definition wfm_props :: "(string \<times> pyval) list" where
  "wfm_props =
     [(''scheduler'',
       VDict [(''type'', VStr ''static''), (''schedule'', VDict [(''0600-1800'', VStr ''wfm'')])])]"

definition idle_source :: src_state where
  "idle_source =
     \<lparr>enabled = True, failed = False, users = False, properties = wfm_props,
      known_profiles = [VStr ''wfm''], broken = False, active_profile = None, running = False\<rparr>"

definition example_sun :: "int \<Rightarrow> py_error + int \<times> int" where
  "example_sun d = Inr (days d + hours 6, days d + hours 18)"

text \<open>07:00 UTC on some day, the entry of the example configuration, and the scheduler
  as \<^verbatim>\<open>parseSchedule\<close> leaves it at that instant on a source \<open>src\<close> that was idle.\<close>

definition seven :: int where
  "seven = days 20000 + hm 7 0"

definition wfm_entry :: ScheduleEntry where
  "wfm_entry = TimeScheduleEntry (hm 6 0) (hm 18 0) (VStr ''wfm'')"

definition scheduled :: "src_state \<Rightarrow> src_state ServiceScheduler" where
  "scheduled src =
     \<lparr>source = src, selectionTimer = Some 0, currentEntry = None,
      schedule = Some (Static [wfm_entry]), subscriptions = [0, 1],
      timers = [\<lparr>delay = seconds 10, started_at = seven, status = Waiting\<rparr>],
      calls = [AddClient]\<rparr>"

subsection \<open>Well-formed schedule configurations\<close>










subsection \<open>Repeated reads of a rotation schedule\<close>


text \<open>A rotation over three profiles with a dwell of five minutes, as
  \<^verbatim>\<open>RotationSchedule.__init__\<close> builds it.\<close>

definition abc :: RotationSchedule where
  "abc = \<lparr>profiles = VList [VStr ''a'', VStr ''b'', VStr ''c''], interval = VInt 300,
          current_index = 0, current_end_time = None\<rparr>"

subsection \<open>Disabled and failed sources\<close>

text \<open>A source that \<^verbatim>\<open>scheduleSelection\<close> refuses to schedule for, and a source interface
  whose commands never bring such a source back: only the source itself re-enables.\<close>

definition inactive :: "'src SdrSource \<Rightarrow> 'src \<Rightarrow> bool" where
  "inactive S src \<longleftrightarrow> \<not> isEnabled S src \<or> isFailed S src"


subsection \<open>The timer invariant\<close>

text \<open>Either no timer has been created yet, or \<^verbatim>\<open>selectionTimer\<close> is the timer created
  last and no earlier timer is still waiting.\<close>

definition timers_inv :: "'src ServiceScheduler \<Rightarrow> bool" where
  "timers_inv s \<longleftrightarrow>
     (timers s = [] \<and> selectionTimer s = None) \<or>
     (\<exists>ts t. timers s = ts @ [t] \<and> (\<forall>x \<in> set ts. status x \<noteq> Waiting)
        \<and> selectionTimer s = Some (length ts))"

section \<open>Properties of schedule entries\<close>

lemma time_of_clock:
  "m < 60 \<Longrightarrow> h < 24 \<Longrightarrow> time_of (days d + hm h m) = hm h m"
proof -
  assume m: "m < 60" and h: "h < 24"
  have "h * 3600 + m * 60 < 86400" using m h by simp
  then have "int (h * 3600 + m * 60) < 86400" by linarith
  then have "hm h m < days 1" "0 \<le> hm h m"
    by (simp_all add: hm_def seconds_def days_def)
  moreover have "days d = d * days 1"
    by (simp add: days_def)
  ultimately show ?thesis
    by (simp add: time_of_def)
qed

text \<open>
  C7. A \<open>TimeScheduleEntry\<close> whose start is later than its end spans midnight: it is
  current exactly when the time of day is at or after the start or strictly before
  the end. The entry parsed from \<^verbatim>\<open>"2300-0100"\<close> is current at 23:30 and at 00:30 and
  is not current at 12:00.
\<close>

theorem isCurrent_spans_midnight:
  "(\<forall>s e p dt. e < s \<longrightarrow>
      isCurrent (TimeScheduleEntry s e p) dt = (s \<le> time_of dt \<or> time_of dt < e))
   \<and> (\<forall>p d.
        static_entries [(''2300-0100'', p)] = Inr [TimeScheduleEntry (hm 23 0) (hm 1 0) p]
      \<and> isCurrent (TimeScheduleEntry (hm 23 0) (hm 1 0) p) (days d + hm 23 30)
      \<and> isCurrent (TimeScheduleEntry (hm 23 0) (hm 1 0) p) (days d + hm 0 30)
      \<and> \<not> isCurrent (TimeScheduleEntry (hm 23 0) (hm 1 0) p) (days d + hm 12 0))"
proof (intro conjI allI impI)
  fix s e :: int and p dt
  assume "e < s"
  then show "isCurrent (TimeScheduleEntry s e p) dt = (s \<le> time_of dt \<or> time_of dt < e)"
    by (simp add: Let_def)
next
  fix p
  show "static_entries [(''2300-0100'', p)] = Inr [TimeScheduleEntry (hm 23 0) (hm 1 0) p]"
    by (simp add: strptime_HM_def is_digit_def digit_val_def)
next
  fix p d
  show "isCurrent (TimeScheduleEntry (hm 23 0) (hm 1 0) p) (days d + hm 23 30)"
    by (simp add: Let_def time_of_clock) (simp add: hm_def seconds_def)
next
  fix p d
  show "isCurrent (TimeScheduleEntry (hm 23 0) (hm 1 0) p) (days d + hm 0 30)"
    by (simp add: Let_def time_of_clock) (simp add: hm_def seconds_def)
next
  fix p d
  show "\<not> isCurrent (TimeScheduleEntry (hm 23 0) (hm 1 0) p) (days d + hm 12 0)"
    by (simp add: Let_def time_of_clock) (simp add: hm_def seconds_def)
qed

theorem isCurrent_spans_midnight_witness:
  "hm 1 0 < hm 23 0
   \<and> isCurrent (TimeScheduleEntry (hm 23 0) (hm 1 0) (VStr ''night'')) (days 20000 + hm 23 30)
   \<and> isCurrent (TimeScheduleEntry (hm 23 0) (hm 1 0) (VStr ''night'')) (days 20000 + hm 0 30)
   \<and> \<not> isCurrent (TimeScheduleEntry (hm 23 0) (hm 1 0) (VStr ''night'')) (days 20000 + hm 12 0)"
proof -
  have lt: "hm 1 0 < hm 23 0"
    by (simp add: hm_def seconds_def)
  note wrap = isCurrent_spans_midnight [THEN conjunct1, rule_format, OF lt]
  have a: "isCurrent (TimeScheduleEntry (hm 23 0) (hm 1 0) (VStr ''night'')) (days 20000 + hm 23 30)"
    unfolding wrap by (simp add: time_of_clock) (simp add: hm_def seconds_def)
  have b: "isCurrent (TimeScheduleEntry (hm 23 0) (hm 1 0) (VStr ''night'')) (days 20000 + hm 0 30)"
    unfolding wrap by (simp add: time_of_clock) (simp add: hm_def seconds_def)
  have c: "\<not> isCurrent (TimeScheduleEntry (hm 23 0) (hm 1 0) (VStr ''night'')) (days 20000 + hm 12 0)"
    unfolding wrap by (simp add: time_of_clock) (simp add: hm_def seconds_def)
  show ?thesis
    by (intro conjI) (rule lt a b c)+
qed

section \<open>Properties of the timer\<close>

lemma timers_inv_init: "timers_inv (ServiceScheduler_init src)"
  by (simp add: timers_inv_def ServiceScheduler_init_def)

lemma timer_cancel_last:
  "timer_cancel (length ts) (ts @ [t]) =
     ts @ [if status t = Waiting then t\<lparr>status := Cancelled\<rparr> else t]"
  by (simp add: timer_cancel_def)

lemma cancelTimer_quiet:
  assumes "timers_inv s"
  shows "timers_inv (cancelTimer s) \<and> (\<forall>x \<in> set (timers (cancelTimer s)). status x \<noteq> Waiting)
    \<and> length (timers (cancelTimer s)) = length (timers s)"
proof -
  consider (empty) "timers s = []" "selectionTimer s = None"
    | (some) ts t where "timers s = ts @ [t]" "\<forall>x \<in> set ts. status x \<noteq> Waiting"
        "selectionTimer s = Some (length ts)"
    using assms unfolding timers_inv_def by auto
  then show ?thesis
  proof cases
    case empty
    then show ?thesis by (simp add: cancelTimer_def timers_inv_def)
  next
    case some
    then show ?thesis
      by (simp add: cancelTimer_def timers_inv_def timer_cancel_last)
  qed
qed

lemma timers_inv_cancelTimer: "timers_inv s \<Longrightarrow> timers_inv (cancelTimer s)"
  using cancelTimer_quiet by blast

lemma timers_inv_scheduleSelection:
  assumes "timers_inv s"
  shows "timers_inv (scheduleSelection S now time s)"
proof (cases "\<not> isEnabled S (source s) \<or> isFailed S (source s)")
  case True
  then show ?thesis using assms by (auto simp add: scheduleSelection_def)
next
  case False
  have q: "\<forall>x \<in> set (timers (cancelTimer s)). status x \<noteq> Waiting"
    using cancelTimer_quiet [OF assms] by blast
  from False q show ?thesis
    by (simp add: scheduleSelection_def timers_inv_def Let_def)
qed

lemma armed_scheduleSelection:
  assumes "timers_inv s" "isEnabled S (source s)" "\<not> isFailed S (source s)"
  shows "armed_timers (scheduleSelection S now time s) =
     [\<lparr>delay = (case time of None \<Rightarrow> seconds 10 | Some t \<Rightarrow> t - now),
       started_at = now, status = Waiting\<rparr>]"
proof -
  have q: "\<forall>x \<in> set (timers (cancelTimer s)). status x \<noteq> Waiting"
    using cancelTimer_quiet [OF assms(1)] by blast
  then have "filter (\<lambda>t. status t = Waiting) (timers (cancelTimer s)) = []"
    by (simp add: filter_empty_conv)
  with assms(2,3) show ?thesis
    by (simp add: scheduleSelection_def armed_timers_def Let_def)
qed

lemma timers_inv_fields [simp]:
  "timers_inv (s\<lparr>source := a\<rparr>) = timers_inv s"
  "timers_inv (s\<lparr>calls := b\<rparr>) = timers_inv s"
  "timers_inv (s\<lparr>currentEntry := c\<rparr>) = timers_inv s"
  "timers_inv (s\<lparr>schedule := d\<rparr>) = timers_inv s"
  "timers_inv (s\<lparr>subscriptions := e\<rparr>) = timers_inv s"
  by (simp_all add: timers_inv_def)

lemma timers_inv_checkStatus:
  "timers_inv s \<Longrightarrow> timers_inv (snd (source_checkStatus S s))"
  by (simp add: source_checkStatus_def split: prod.splits)

lemma timers_inv_setCurrentEntry:
  assumes "timers_inv s"
  shows "timers_inv (snd (setCurrentEntry S now entry s))"
proof (cases entry)
  case None
  then show ?thesis
    using assms by (simp add: setCurrentEntry_def timers_inv_checkStatus)
next
  case (Some e)
  have "timers_inv (scheduleSelection S now (Some (getScheduledEnd now e)) (s\<lparr>currentEntry := Some e\<rparr>))"
    using assms by (simp add: timers_inv_scheduleSelection)
  then show ?thesis
    using Some
    by (simp add: setCurrentEntry_def Let_def timers_inv_checkStatus
        split: prod.splits option.splits)
qed

lemma timers_inv_selectProfile:
  assumes "timers_inv s"
  shows "timers_inv (snd (selectProfile S sun now s))"
proof (cases "hasClients S USER (source s)")
  case True
  then show ?thesis using assms by (simp add: selectProfile_def)
next
  case False
  show ?thesis
  proof (cases "schedule s")
    case None
    then show ?thesis
      using False assms by (simp add: selectProfile_def timers_inv_setCurrentEntry)
  next
    case (Some sch)
    obtain oc sch' where g: "getCurrentEntry sun now sch = (oc, sch')"
      by (cases "getCurrentEntry sun now sch")
    show ?thesis
    proof (cases oc)
      case (Returns entry)
      obtain o1 s1 where sc: "setCurrentEntry S now entry (s\<lparr>schedule := Some sch'\<rparr>) = (o1, s1)"
        by (cases "setCurrentEntry S now entry (s\<lparr>schedule := Some sch'\<rparr>)")
      have i1: "timers_inv s1"
        using timers_inv_setCurrentEntry [of "s\<lparr>schedule := Some sch'\<rparr>" S now entry] assms sc
        by simp
      obtain o2 sch2 where n: "getNextEntry sun now sch' = (o2, sch2)"
        by (cases "getNextEntry sun now sch'")
      from i1 show ?thesis
        using False Some g Returns sc n
        by (cases o1; cases o2)
          (auto simp add: selectProfile_def timers_inv_scheduleSelection split: option.splits)
    next
      case (Raises e)
      then show ?thesis
        using False Some g assms by (simp add: selectProfile_def)
    next
      case Diverges
      then show ?thesis
        using False Some g assms by (simp add: selectProfile_def)
    qed
  qed
qed

lemma timers_inv_expire:
  assumes "timers_inv s" "h < length (timers s)"
  shows "timers_inv (s\<lparr>timers := (timers s)[h := (timers s ! h)\<lparr>status := Fired\<rparr>]\<rparr>)"
proof -
  obtain ts t where ts: "timers s = ts @ [t]" "\<forall>x \<in> set ts. status x \<noteq> Waiting"
    "selectionTimer s = Some (length ts)"
    using assms unfolding timers_inv_def by auto
  show ?thesis
  proof (cases "h < length ts")
    case True
    have "\<forall>x \<in> set (ts[h := (ts ! h)\<lparr>status := Fired\<rparr>]). status x \<noteq> Waiting"
      using ts(2) by (auto dest!: set_update_subset_insert [THEN subsetD])
    with True ts show ?thesis
      by (simp add: timers_inv_def list_update_append nth_append)
  next
    case False
    with assms(2) ts(1) have "h = length ts" by simp
    with ts show ?thesis
      by (simp add: timers_inv_def)
  qed
qed

lemma timers_inv_handle:
  assumes "timers_inv s"
  shows "timers_inv (snd (handle S sun now ev s))"
proof (cases ev)
  case ParseSchedule
  then show ?thesis
    using assms by (simp add: parseSchedule_def timers_inv_scheduleSelection split: sum.splits)
next
  case (TimerExpires h)
  then show ?thesis
    using assms by (simp add: timers_inv_expire timers_inv_selectProfile)
next
  case SelectProfile
  then show ?thesis using assms by (simp add: timers_inv_selectProfile)
qed (use assms in \<open>simp_all add: shutdown_def Let_def onStateChange_def onFail_def onShutdown_def
      onDisable_def onEnable_def onBusyStateChange_def onFrequencyChange_def
      timers_inv_scheduleSelection timers_inv_cancelTimer\<close>)

lemma timers_inv_run:
  "timers_inv s \<Longrightarrow> timers_inv (run S sun evs s)"
proof (induction evs arbitrary: s)
  case Nil
  then show ?case by simp
next
  case (Cons a evs)
  then show ?case
    by (cases a) (simp add: timers_inv_handle)
qed

lemma timers_inv_armed: "timers_inv s \<Longrightarrow> length (armed_timers s) \<le> 1"
  unfolding timers_inv_def armed_timers_def
  by (auto simp add: filter_empty_conv)

text \<open>
  C8 (as amended). After any serialized history of method calls, lifecycle events,
  timer expiries and changes of the source, starting from a new scheduler, at most one
  timer is waiting; and a call of \<^verbatim>\<open>scheduleSelection\<close> that follows such a history on
  an enabled, working source leaves exactly the timer it has just started waiting,
  every earlier one having been cancelled. (The scheduler holds no lock: two calls of
  \<^verbatim>\<open>scheduleSelection\<close> that overlap can leave two timers waiting.)
\<close>

theorem at_most_one_armed_timer:
  "length (armed_timers (run S sun evs (ServiceScheduler_init src))) \<le> 1
   \<and> armed_timers (scheduleSelection S now time (run S sun evs (ServiceScheduler_init src))) =
       (if isEnabled S (source (run S sun evs (ServiceScheduler_init src)))
           \<and> \<not> isFailed S (source (run S sun evs (ServiceScheduler_init src)))
        then [\<lparr>delay = (case time of None \<Rightarrow> seconds 10 | Some t \<Rightarrow> t - now),
               started_at = now, status = Waiting\<rparr>]
        else armed_timers (run S sun evs (ServiceScheduler_init src)))"
proof -
  have inv: "timers_inv (run S sun evs (ServiceScheduler_init src))"
    by (simp add: timers_inv_run timers_inv_init)
  show ?thesis
    using timers_inv_armed [OF inv] armed_scheduleSelection [OF inv, of S now time]
    by (auto simp add: scheduleSelection_def)
qed

section \<open>Properties of profile selection\<close>

lemma scheduleSelection_fields [simp]:
  "source (scheduleSelection S now time s) = source s"
  "calls (scheduleSelection S now time s) = calls s"
  "currentEntry (scheduleSelection S now time s) = currentEntry s"
  "schedule (scheduleSelection S now time s) = schedule s"
  "subscriptions (scheduleSelection S now time s) = subscriptions s"
  by (simp_all add: scheduleSelection_def cancelTimer_def Let_def split: option.splits)

lemma cancelTimer_fields [simp]:
  "source (cancelTimer s) = source s"
  "calls (cancelTimer s) = calls s"
  "currentEntry (cancelTimer s) = currentEntry s"
  "schedule (cancelTimer s) = schedule s"
  "subscriptions (cancelTimer s) = subscriptions s"
  "selectionTimer (cancelTimer s) = selectionTimer s"
  "length (timers (cancelTimer s)) = length (timers s)"
  by (simp_all add: cancelTimer_def timer_cancel_def split: option.splits)

lemma cancelTimer_ignores [simp]:
  "timers (cancelTimer (s\<lparr>currentEntry := c\<rparr>)) = timers (cancelTimer s)"
  "timers (cancelTimer (s\<lparr>schedule := d\<rparr>)) = timers (cancelTimer s)"
  by (simp_all add: cancelTimer_def split: option.splits)

lemma scheduleSelection_armed:
  assumes "isEnabled S (source s)" "\<not> isFailed S (source s)"
  shows "timers (scheduleSelection S now time s) =
           timers (cancelTimer s) @
             [\<lparr>delay = (case time of None \<Rightarrow> seconds 10 | Some t \<Rightarrow> t - now),
               started_at = now, status = Waiting\<rparr>]"
    and "selectionTimer (scheduleSelection S now time s) = Some (length (timers s))"
  using assms by (simp_all add: scheduleSelection_def Let_def)

lemma checkStatus_fields [simp]:
  "currentEntry (snd (source_checkStatus S s)) = currentEntry s"
  "timers (snd (source_checkStatus S s)) = timers s"
  "selectionTimer (snd (source_checkStatus S s)) = selectionTimer s"
  "schedule (snd (source_checkStatus S s)) = schedule s"
  "calls (snd (source_checkStatus S s)) = calls s @ [CheckStatus]"
  "fst (source_checkStatus S s) =
     (case fst (checkStatus S (source s)) of None \<Rightarrow> Returns () | Some x \<Rightarrow> Raises x)"
  by (simp_all add: source_checkStatus_def split: prod.splits)

lemma selectProfile_with_entry:
  assumes "\<not> hasClients S USER (source s)" "schedule s = Some sch"
    "getCurrentEntry sun now sch = (Returns (Some e), sch')"
  shows "selectProfile S sun now s = setCurrentEntry S now (Some e) (s\<lparr>schedule := Some sch'\<rparr>)"
proof -
  have "currentEntry (snd (setCurrentEntry S now (Some e) (s\<lparr>schedule := Some sch'\<rparr>))) = Some e"
    by (simp add: setCurrentEntry_def Let_def split: prod.splits option.splits)
  then show ?thesis
    using assms
    by (cases "setCurrentEntry S now (Some e) (s\<lparr>schedule := Some sch'\<rparr>)";
        cases "fst (setCurrentEntry S now (Some e) (s\<lparr>schedule := Some sch'\<rparr>))")
      (simp_all add: selectProfile_def)
qed

lemma setCurrentEntry_enabled:
  assumes "isEnabled S (source s)" "\<not> isFailed S (source s)"
    "activateProfile S (getProfile e) (source s) = (r3, src3)"
    "start S src3 = (r4, src4)"
  shows "currentEntry (snd (setCurrentEntry S now (Some e) s)) = Some e"
    and "timers (snd (setCurrentEntry S now (Some e) s)) =
       timers (cancelTimer s) @
         [\<lparr>delay = getScheduledEnd now e - now, started_at = now, status = Waiting\<rparr>]"
    and "selectionTimer (snd (setCurrentEntry S now (Some e) s)) = Some (length (timers s))"
    and "calls (snd (setCurrentEntry S now (Some e) s)) =
       calls s @ [ActivateProfile (getProfile e)] @
         (case r3 of
            None \<Rightarrow> [Start] @ (if r4 = None \<or> r4 = Some KeyError then [CheckStatus] else [])
          | Some exc \<Rightarrow> if exc = KeyError then [CheckStatus] else [])"
    and "fst (setCurrentEntry S now (Some e) s) =
       (case r3 of
          None \<Rightarrow>
            (if r4 = None \<or> r4 = Some KeyError
             then (case fst (checkStatus S src4) of None \<Rightarrow> Returns () | Some x \<Rightarrow> Raises x)
             else Raises (the r4))
        | Some exc \<Rightarrow>
            if exc = KeyError
            then (case fst (checkStatus S src3) of None \<Rightarrow> Returns () | Some x \<Rightarrow> Raises x)
            else Raises exc)"
  using assms
  by (auto simp add: setCurrentEntry_def Let_def scheduleSelection_armed split: option.splits)

lemma parse_wfm:
  "parse wfm_props = Inr (Some (Static [TimeScheduleEntry (hm 6 0) (hm 18 0) (VStr ''wfm'')]))"
  by (simp add: parse_def wfm_props_def strptime_HM_def is_digit_def digit_val_def)

lemma day_arith:
  "date_of (days d + hm 7 0) = d"
  "time_of (days d + hm 7 0) = hm 7 0"
  "time_of (days d + hm 23 30) = hm 23 30"
  "time_of (days d + hm 0 30) = hm 0 30"
  "time_of (days d + hm 12 0) = hm 12 0"
  by (simp_all add: date_of_def time_of_def days_def hm_def seconds_def)


lemma wfm_current:
  "getCurrentEntry sun (days d + hm 7 0) (Static [TimeScheduleEntry (hm 6 0) (hm 18 0) (VStr ''wfm'')])
     = (Returns (Some (TimeScheduleEntry (hm 6 0) (hm 18 0) (VStr ''wfm''))),
        Static [TimeScheduleEntry (hm 6 0) (hm 18 0) (VStr ''wfm'')])"
proof -
  have "isCurrent (TimeScheduleEntry (hm 6 0) (hm 18 0) (VStr ''wfm'')) (days d + hm 7 0)"
    by (simp add: day_arith Let_def) (simp add: hm_def seconds_def)
  then show ?thesis
    by (simp add: getCurrentEntry_def timerange_getCurrentEntry_def del: isCurrent.simps)
qed


lemma roll_forward_future: "now \<le> t \<Longrightarrow> roll_forward now t = t"
  by (subst roll_forward.simps) simp

lemma wfm_end:
  "getScheduledEnd (days d + hm 7 0) (TimeScheduleEntry (hm 6 0) (hm 18 0) (VStr ''wfm''))
     = days d + hm 18 0"
proof -
  have "days d + hm 7 0 \<le> days d + hm 18 0"
    by (simp add: hm_def seconds_def)
  then show ?thesis
    by (simp add: combine_def day_arith roll_forward_future)
qed


lemma run_parse:
  "run example_source example_sun [(seven, ParseSchedule)] (ServiceScheduler_init idle_source)
     = scheduled idle_source"
  by (simp add: parseSchedule_def parse_wfm scheduled_def wfm_entry_def ServiceScheduler_init_def
      scheduleSelection_def cancelTimer_def example_source_def idle_source_def)

theorem at_most_one_armed_timer_witness:
  "length (armed_timers (run example_source example_sun [(seven, ParseSchedule)]
             (ServiceScheduler_init idle_source))) \<le> 1
   \<and> armed_timers (scheduleSelection example_source (seven + seconds 10) (Some (days 20000 + hm 18 0))
        (run example_source example_sun [(seven, ParseSchedule)] (ServiceScheduler_init idle_source)))
     = [\<lparr>delay = days 20000 + hm 18 0 - (seven + seconds 10), started_at = seven + seconds 10,
          status = Waiting\<rparr>]"
proof -
  have en: "isEnabled example_source (source (scheduled idle_source))"
    "\<not> isFailed example_source (source (scheduled idle_source))"
    by (simp_all add: example_source_def idle_source_def scheduled_def)
  show ?thesis
    using at_most_one_armed_timer [of example_source example_sun "[(seven, ParseSchedule)]"
        idle_source "seven + seconds 10" "Some (days 20000 + hm 18 0)"] en
    unfolding run_parse by simp
qed

text \<open>
  C1. When the source reports an interactive client, \<^verbatim>\<open>selectProfile\<close> returns at once:
  the whole state is as before, so \<^verbatim>\<open>currentEntry\<close> is unchanged, no timer is started
  or cancelled, and no command (\<^verbatim>\<open>activateProfile\<close>, \<^verbatim>\<open>start\<close>, \<^verbatim>\<open>checkStatus\<close>) is
  issued to the source, whose state is unchanged too.
\<close>

theorem selectProfile_user_present:
  assumes "hasClients S USER (source s)"
  shows "selectProfile S sun now s = (Returns (), s)"
  using assms by (simp add: selectProfile_def)

theorem selectProfile_user_present_witness:
  "hasClients example_source USER (source (scheduled (idle_source\<lparr>users := True\<rparr>)))
   \<and> selectProfile example_source example_sun (seven + seconds 10)
        (scheduled (idle_source\<lparr>users := True\<rparr>))
      = (Returns (), scheduled (idle_source\<lparr>users := True\<rparr>))"
proof -
  have u: "hasClients example_source USER (source (scheduled (idle_source\<lparr>users := True\<rparr>)))"
    by (simp add: example_source_def scheduled_def)
  from u selectProfile_user_present [OF u] show ?thesis by simp
qed

lemma seven_arith:
  "time_of seven = hm 7 0" "date_of seven = 20000"
  "time_of (seven + seconds 10) = hm 7 0 + seconds 10" "date_of (seven + seconds 10) = 20000"
  by (simp_all add: seven_def time_of_def date_of_def days_def hm_def seconds_def)

lemma wfm_current_at:
  assumes "hm 6 0 \<le> time_of now" "time_of now < hm 18 0"
  shows "getCurrentEntry sun now (Static [wfm_entry]) = (Returns (Some wfm_entry), Static [wfm_entry])"
proof -
  have "hm 6 0 < hm 18 0" by (simp add: hm_def seconds_def)
  then have "isCurrent wfm_entry now"
    using assms by (simp add: wfm_entry_def Let_def)
  then show ?thesis
    by (simp add: getCurrentEntry_def timerange_getCurrentEntry_def)
qed

lemma wfm_current_seven:
  "getCurrentEntry sun seven (Static [wfm_entry]) = (Returns (Some wfm_entry), Static [wfm_entry])"
  "getCurrentEntry sun (seven + seconds 10) (Static [wfm_entry])
     = (Returns (Some wfm_entry), Static [wfm_entry])"
  by (rule wfm_current_at; simp add: seven_arith; simp add: hm_def seconds_def)+

lemma wfm_end_seven:
  "getScheduledEnd seven wfm_entry = days 20000 + hm 18 0"
  "getScheduledEnd (seven + seconds 10) wfm_entry = days 20000 + hm 18 0"
proof -
  have "seven \<le> days 20000 + hm 18 0" "seven + seconds 10 \<le> days 20000 + hm 18 0"
    by (simp_all add: seven_def hm_def seconds_def)
  then show "getScheduledEnd seven wfm_entry = days 20000 + hm 18 0"
    "getScheduledEnd (seven + seconds 10) wfm_entry = days 20000 + hm 18 0"
    by (simp_all add: wfm_entry_def seven_arith combine_def roll_forward_future)
qed

lemma run_disabled:
  "run example_source example_sun
     [(seven, ParseSchedule), (seven + seconds 5, SourceChanges (idle_source\<lparr>enabled := False\<rparr>))]
     (ServiceScheduler_init idle_source) = scheduled (idle_source\<lparr>enabled := False\<rparr>)"
  by (simp add: parseSchedule_def parse_wfm scheduled_def wfm_entry_def ServiceScheduler_init_def
      scheduleSelection_def cancelTimer_def example_source_def idle_source_def)

theorem selectProfile_disabled_counterexample:
  "getCurrentEntry example_sun (seven + seconds 10) (Static [wfm_entry])
     = (Returns (Some wfm_entry), Static [wfm_entry])
   \<and> schedule (scheduled (idle_source\<lparr>enabled := False\<rparr>)) = Some (Static [wfm_entry])
   \<and> currentEntry (snd (selectProfile example_source example_sun (seven + seconds 10)
        (scheduled (idle_source\<lparr>enabled := False\<rparr>)))) = Some wfm_entry
   \<and> calls (snd (selectProfile example_source example_sun (seven + seconds 10)
        (scheduled (idle_source\<lparr>enabled := False\<rparr>))))
       = [AddClient, ActivateProfile (VStr ''wfm''), Start, CheckStatus]
   \<and> timers (snd (selectProfile example_source example_sun (seven + seconds 10)
        (scheduled (idle_source\<lparr>enabled := False\<rparr>))))
       = [\<lparr>delay = seconds 10, started_at = seven, status = Waiting\<rparr>]
   \<and> fires_at \<lparr>delay = seconds 10, started_at = seven, status = Waiting\<rparr> \<noteq> getScheduledEnd (seven + seconds 10) wfm_entry
   \<and> armed_timers (run example_source example_sun
        [(seven, ParseSchedule), (seven + seconds 5, SourceChanges (idle_source\<lparr>enabled := False\<rparr>)),
         (seven + seconds 10, TimerExpires 0)] (ServiceScheduler_init idle_source)) = []"
proof -
  let ?s = "scheduled (idle_source\<lparr>enabled := False\<rparr>)"
  let ?now = "seven + seconds 10"
  have nu: "\<not> hasClients example_source USER (source ?s)"
    by (simp add: example_source_def scheduled_def idle_source_def)
  have sc: "schedule ?s = Some (Static [wfm_entry])"
    by (simp add: scheduled_def)
  have sel: "selectProfile example_source example_sun ?now ?s
      = setCurrentEntry example_source ?now (Some wfm_entry) (?s\<lparr>schedule := Some (Static [wfm_entry])\<rparr>)"
    by (rule selectProfile_with_entry [OF nu sc wfm_current_seven(2)])
  have res: "snd (setCurrentEntry example_source ?now (Some wfm_entry) (?s\<lparr>schedule := Some (Static [wfm_entry])\<rparr>))
      = ?s\<lparr>currentEntry := Some wfm_entry,
            source := idle_source\<lparr>enabled := False, active_profile := Some (VStr ''wfm''), running := True\<rparr>,
            calls := [AddClient, ActivateProfile (VStr ''wfm''), Start, CheckStatus]\<rparr>"
    by (simp add: setCurrentEntry_def scheduleSelection_def source_checkStatus_def Let_def
        example_source_def scheduled_def idle_source_def wfm_entry_def)
  have ne: "fires_at \<lparr>delay = seconds 10, started_at = seven, status = Waiting\<rparr>
      \<noteq> getScheduledEnd (seven + seconds 10) wfm_entry"
    unfolding wfm_end_seven by (simp add: fires_at_def seven_def hm_def seconds_def)
  have ev: "run example_source example_sun
        [(seven, ParseSchedule), (seven + seconds 5, SourceChanges (idle_source\<lparr>enabled := False\<rparr>)),
         (seven + seconds 10, TimerExpires 0)] (ServiceScheduler_init idle_source)
      = snd (handle example_source example_sun ?now (TimerExpires 0) ?s)"
    using run_disabled by simp
  let ?f = "?s\<lparr>timers := [\<lparr>delay = seconds 10, started_at = seven, status = Fired\<rparr>]\<rparr>"
  have h: "handle example_source example_sun ?now (TimerExpires 0) ?s
      = selectProfile example_source example_sun ?now ?f"
    by (simp add: scheduled_def)
  have nu': "\<not> hasClients example_source USER (source ?f)"
    by (simp add: example_source_def scheduled_def idle_source_def)
  have sc': "schedule ?f = Some (Static [wfm_entry])"
    by (simp add: scheduled_def)
  have sel': "selectProfile example_source example_sun ?now ?f
      = setCurrentEntry example_source ?now (Some wfm_entry) (?f\<lparr>schedule := Some (Static [wfm_entry])\<rparr>)"
    by (rule selectProfile_with_entry [OF nu' sc' wfm_current_seven(2)])
  have res': "timers (snd (setCurrentEntry example_source ?now (Some wfm_entry)
        (?f\<lparr>schedule := Some (Static [wfm_entry])\<rparr>)))
      = [\<lparr>delay = seconds 10, started_at = seven, status = Fired\<rparr>]"
    by (simp add: setCurrentEntry_def scheduleSelection_def source_checkStatus_def Let_def
        example_source_def scheduled_def idle_source_def wfm_entry_def)
  have armed: "armed_timers (snd (handle example_source example_sun ?now (TimerExpires 0) ?s)) = []"
    unfolding h sel' by (simp add: armed_timers_def res')
  show ?thesis
    unfolding ev sel res using wfm_current_seven(2) sc ne armed
    by (simp add: scheduled_def)
qed

lemma setCurrentEntry_outcome:
  assumes "activateProfile S (getProfile e) (source s) = (r3, src3)"
    "start S src3 = (r4, src4)"
  shows "currentEntry (snd (setCurrentEntry S now (Some e) s)) = Some e"
    and "timers (snd (setCurrentEntry S now (Some e) s)) =
       timers (scheduleSelection S now (Some (getScheduledEnd now e)) s)"
    and "calls (snd (setCurrentEntry S now (Some e) s)) =
       calls s @ [ActivateProfile (getProfile e)] @
         (case r3 of
            None \<Rightarrow> [Start] @ (if r4 = None \<or> r4 = Some KeyError then [CheckStatus] else [])
          | Some exc \<Rightarrow> if exc = KeyError then [CheckStatus] else [])"
    and "fst (setCurrentEntry S now (Some e) s) =
       (case r3 of
          None \<Rightarrow>
            (case r4 of
               None \<Rightarrow> (case fst (checkStatus S src4) of None \<Rightarrow> Returns () | Some x \<Rightarrow> Raises x)
             | Some exc \<Rightarrow>
                 if exc = KeyError
                 then (case fst (checkStatus S src4) of None \<Rightarrow> Returns () | Some x \<Rightarrow> Raises x)
                 else Raises exc)
        | Some exc \<Rightarrow>
            if exc = KeyError
            then (case fst (checkStatus S src3) of None \<Rightarrow> Returns () | Some x \<Rightarrow> Raises x)
            else Raises exc)"
  using assms
  by (auto simp add: setCurrentEntry_def Let_def scheduleSelection_def cancelTimer_def
      split: option.splits)

text \<open>
  C2 (as amended). During background activation, a \<^verbatim>\<open>KeyError\<close> raised by
  \<^verbatim>\<open>activateProfile\<close> or by \<^verbatim>\<open>start\<close> is swallowed: \<^verbatim>\<open>checkStatus\<close> is called next and
  the call ends as \<^verbatim>\<open>checkStatus\<close> ends. Any other exception raised by
  \<^verbatim>\<open>activateProfile\<close> or \<^verbatim>\<open>start\<close> leaves \<^verbatim>\<open>_setCurrentEntry\<close> and \<^verbatim>\<open>selectProfile\<close>, the
  timer callback, without \<^verbatim>\<open>checkStatus\<close> being called; by then \<^verbatim>\<open>currentEntry\<close> is
  set and \<^verbatim>\<open>scheduleSelection\<close> has been called for the entry's scheduled end, so the
  scheduler keeps its state and its next trigger.
\<close>

theorem activation_errors:
  assumes "\<not> hasClients S USER (source s)" "schedule s = Some sch"
    "getCurrentEntry sun now sch = (Returns (Some e), sch')"
    "activateProfile S (getProfile e) (source s) = (r3, src3)"
    "start S src3 = (r4, src4)"
  shows "(r3 = Some KeyError \<longrightarrow>
            fst (selectProfile S sun now s) =
              (case fst (checkStatus S src3) of None \<Rightarrow> Returns () | Some x \<Rightarrow> Raises x)
          \<and> calls (snd (selectProfile S sun now s)) =
              calls s @ [ActivateProfile (getProfile e), CheckStatus])
       \<and> (r3 = None \<and> r4 = Some KeyError \<longrightarrow>
            fst (selectProfile S sun now s) =
              (case fst (checkStatus S src4) of None \<Rightarrow> Returns () | Some x \<Rightarrow> Raises x)
          \<and> calls (snd (selectProfile S sun now s)) =
              calls s @ [ActivateProfile (getProfile e), Start, CheckStatus])
       \<and> (\<forall>exc. exc \<noteq> KeyError \<and> r3 = Some exc \<longrightarrow>
            fst (selectProfile S sun now s) = Raises exc
          \<and> calls (snd (selectProfile S sun now s)) = calls s @ [ActivateProfile (getProfile e)])
       \<and> (\<forall>exc. exc \<noteq> KeyError \<and> r3 = None \<and> r4 = Some exc \<longrightarrow>
            fst (selectProfile S sun now s) = Raises exc
          \<and> calls (snd (selectProfile S sun now s)) =
              calls s @ [ActivateProfile (getProfile e), Start])
       \<and> currentEntry (snd (selectProfile S sun now s)) = Some e
       \<and> timers (snd (selectProfile S sun now s)) =
            timers (scheduleSelection S now (Some (getScheduledEnd now e)) s)"
proof -
  let ?s0 = "s\<lparr>schedule := Some sch'\<rparr>"
  have eq: "selectProfile S sun now s = setCurrentEntry S now (Some e) ?s0"
    using assms(1-3) by (rule selectProfile_with_entry)
  have a: "activateProfile S (getProfile e) (source ?s0) = (r3, src3)"
    using assms(4) by simp
  have t: "timers (scheduleSelection S now (Some (getScheduledEnd now e)) ?s0)
      = timers (scheduleSelection S now (Some (getScheduledEnd now e)) s)"
    by (simp add: scheduleSelection_def Let_def)
  note facts = setCurrentEntry_outcome [OF a assms(5), of now]
  show ?thesis
    unfolding eq using facts t by simp
qed

theorem activation_errors_counterexample:
  "activateProfile example_source (VStr ''wfm'') (idle_source\<lparr>broken := True\<rparr>)
     = (Some RuntimeError, idle_source\<lparr>broken := True\<rparr>)
   \<and> fst (setCurrentEntry example_source (seven + seconds 10) (Some wfm_entry)
        (scheduled (idle_source\<lparr>broken := True\<rparr>))) = Raises RuntimeError
   \<and> fst (handle example_source example_sun (seven + seconds 10) (TimerExpires 0)
        (scheduled (idle_source\<lparr>broken := True\<rparr>))) = Raises RuntimeError"
proof -
  let ?src = "idle_source\<lparr>broken := True\<rparr>"
  let ?s = "scheduled ?src"
  let ?now = "seven + seconds 10"
  let ?f = "?s\<lparr>timers := [\<lparr>delay = seconds 10, started_at = seven, status = Fired\<rparr>]\<rparr>"
  have act: "activateProfile example_source (VStr ''wfm'') ?src = (Some RuntimeError, ?src)"
    by (simp add: example_source_def idle_source_def)
  have st: "start example_source ?src = (None, ?src\<lparr>running := True\<rparr>)"
    by (simp add: example_source_def)
  have p: "getProfile wfm_entry = VStr ''wfm''"
    by (simp add: wfm_entry_def)
  have a1: "activateProfile example_source (getProfile wfm_entry) (source ?s) = (Some RuntimeError, ?src)"
    unfolding p using act by (simp add: scheduled_def)
  have a2: "activateProfile example_source (getProfile wfm_entry) (source ?f) = (Some RuntimeError, ?src)"
    unfolding p using act by (simp add: scheduled_def)
  have r1: "fst (setCurrentEntry example_source ?now (Some wfm_entry) ?s) = Raises RuntimeError"
    using setCurrentEntry_outcome(4) [OF a1 st, of ?now] by simp
  have h: "handle example_source example_sun ?now (TimerExpires 0) ?s
      = selectProfile example_source example_sun ?now ?f"
    by (simp add: scheduled_def)
  have nu: "\<not> hasClients example_source USER (source ?f)"
    by (simp add: example_source_def scheduled_def idle_source_def)
  have sc: "schedule ?f = Some (Static [wfm_entry])"
    by (simp add: scheduled_def)
  have sel: "selectProfile example_source example_sun ?now ?f
      = setCurrentEntry example_source ?now (Some wfm_entry) (?f\<lparr>schedule := Some (Static [wfm_entry])\<rparr>)"
    by (rule selectProfile_with_entry [OF nu sc wfm_current_seven(2)])
  have a3: "activateProfile example_source (getProfile wfm_entry)
      (source (?f\<lparr>schedule := Some (Static [wfm_entry])\<rparr>)) = (Some RuntimeError, ?src)"
    using a2 by simp
  have r2: "fst (handle example_source example_sun ?now (TimerExpires 0) ?s) = Raises RuntimeError"
    unfolding h sel using setCurrentEntry_outcome(4) [OF a3 st, of ?now] by simp
  from act r1 r2 show ?thesis by simp
qed

theorem activation_errors_witness:
  "fst (selectProfile example_source example_sun seven
          (scheduled (idle_source\<lparr>known_profiles := []\<rparr>))) = Returns ()
   \<and> calls (snd (selectProfile example_source example_sun seven
          (scheduled (idle_source\<lparr>known_profiles := []\<rparr>))))
       = [AddClient, ActivateProfile (VStr ''wfm''), CheckStatus]
   \<and> fst (selectProfile example_source example_sun seven
          (scheduled (idle_source\<lparr>broken := True\<rparr>))) = Raises RuntimeError
   \<and> calls (snd (selectProfile example_source example_sun seven
          (scheduled (idle_source\<lparr>broken := True\<rparr>))))
       = [AddClient, ActivateProfile (VStr ''wfm'')]
   \<and> currentEntry (snd (selectProfile example_source example_sun seven
          (scheduled (idle_source\<lparr>broken := True\<rparr>)))) = Some wfm_entry"
proof -
  let ?k = "idle_source\<lparr>known_profiles := []\<rparr>"
  let ?b = "idle_source\<lparr>broken := True\<rparr>"
  have p: "getProfile wfm_entry = VStr ''wfm''"
    by (simp add: wfm_entry_def)
  have k1: "\<not> hasClients example_source USER (source (scheduled ?k))"
    and k2: "schedule (scheduled ?k) = Some (Static [wfm_entry])"
    and k3: "activateProfile example_source (getProfile wfm_entry) (source (scheduled ?k))
        = (Some KeyError, ?k)"
    and k4: "start example_source ?k = (None, ?k\<lparr>running := True\<rparr>)"
    and k5: "fst (checkStatus example_source ?k) = None"
    and k6: "calls (scheduled ?k) = [AddClient]"
    by (simp_all add: example_source_def scheduled_def idle_source_def wfm_entry_def)
  have b1: "\<not> hasClients example_source USER (source (scheduled ?b))"
    and b2: "schedule (scheduled ?b) = Some (Static [wfm_entry])"
    and b3: "activateProfile example_source (getProfile wfm_entry) (source (scheduled ?b))
        = (Some RuntimeError, ?b)"
    and b4: "start example_source ?b = (None, ?b\<lparr>running := True\<rparr>)"
    and b6: "calls (scheduled ?b) = [AddClient]"
    by (simp_all add: example_source_def scheduled_def idle_source_def wfm_entry_def)
  from activation_errors [OF k1 k2 wfm_current_seven(1) k3 k4]
    activation_errors [OF b1 b2 wfm_current_seven(1) b3 b4]
  show ?thesis
    unfolding k5 k6 b6 p by simp
qed

section \<open>Properties of the rotation schedule\<close>






lemma rotation_pending_read:
  assumes "profiles r = VList ps" "ps \<noteq> []" "interval r = VInt i"
    "current_end_time r = Some t" "now < t" "current_index r < length ps"
  shows "rotation_getCurrentEntry now r =
     (Inr (Some (RotationScheduleEntry now t (ps ! current_index r))), r)"
  using assms by (simp add: rotation_getCurrentEntry_def RotationScheduleEntry_init_def Let_def)



text \<open>
  C5 (as amended). For a rotation schedule with a non-empty profile list,
  \<^verbatim>\<open>getNextEntry\<close> changes no state and returns an entry for the following profile,
  \<open>profiles[(currentIndex + 1) mod N]\<close>, whose end is one interval after the current
  end-time (after the instant of the call when no end-time is set) and whose start is
  the instant of the call.
\<close>

theorem rotation_getNextEntry_preview:
  assumes "profiles r = VList ps" "ps \<noteq> []" "interval r = VInt i"
  shows "rotation_getNextEntry now r =
     (Inr (Some (RotationScheduleEntry now
                   ((case current_end_time r of Some t \<Rightarrow> t | None \<Rightarrow> now) + seconds i)
                   (ps ! ((current_index r + 1) mod length ps)))),
      r)"
  using assms by (simp add: rotation_getNextEntry_def RotationScheduleEntry_init_def Let_def)


theorem rotation_getNextEntry_counterexample:
  "current_end_time (snd (rotation_getCurrentEntry seven abc)) = Some (seven + seconds 300)
   \<and> fst (rotation_getNextEntry (seven + seconds 10) (snd (rotation_getCurrentEntry seven abc)))
     = Inr (Some (RotationScheduleEntry (seven + seconds 10) (seven + seconds 300 + seconds 300)
                    (VStr ''b'')))
   \<and> startTime (RotationScheduleEntry (seven + seconds 10) (seven + seconds 300 + seconds 300)
                    (VStr ''b'')) = seven + seconds 10
   \<and> seven + seconds 10 \<noteq> seven + seconds 300"
  by (simp add: abc_def rotation_getCurrentEntry_def rotation_getNextEntry_def
      RotationScheduleEntry_init_def Let_def seconds_def)

theorem rotation_getNextEntry_preview_witness:
  "rotation_getNextEntry (seven + seconds 10) (snd (rotation_getCurrentEntry seven abc))
   = (Inr (Some (RotationScheduleEntry (seven + seconds 10) (seven + seconds 300 + seconds 300)
                   (VStr ''b''))),
      snd (rotation_getCurrentEntry seven abc))"
proof -
  have r: "snd (rotation_getCurrentEntry seven abc)
      = abc\<lparr>current_end_time := Some (seven + seconds 300)\<rparr>"
    by (simp add: abc_def rotation_getCurrentEntry_def RotationScheduleEntry_init_def Let_def)
  have "profiles (abc\<lparr>current_end_time := Some (seven + seconds 300)\<rparr>)
      = VList [VStr ''a'', VStr ''b'', VStr ''c'']"
    "[VStr ''a'', VStr ''b'', VStr ''c''] \<noteq> []"
    "interval (abc\<lparr>current_end_time := Some (seven + seconds 300)\<rparr>) = VInt 300"
    by (simp_all add: abc_def)
  from rotation_getNextEntry_preview [OF this, of "seven + seconds 10"]
  show ?thesis unfolding r by (simp add: abc_def)
qed

section \<open>Properties of configuration parsing\<close>

lemma strptime_HM_error: "isl (strptime_HM s) \<Longrightarrow> strptime_HM s = Inl ValueError"
proof (cases "concat (map (\<lambda>(h, r). map (\<lambda>(m, r'). (h, m, r')) (match_M r)) (match_H s))")
  case Nil
  show ?thesis unfolding strptime_HM_def Nil by simp
next
  case (Cons x xs)
  assume "isl (strptime_HM s)"
  then show ?thesis
    unfolding strptime_HM_def Cons by (cases x) (simp split: if_splits)
qed














section \<open>Properties of a disabled or failed source\<close>

lemma scheduleSelection_noop:
  "inactive S (source s) \<Longrightarrow> scheduleSelection S now time s = s"
  by (auto simp add: scheduleSelection_def inactive_def)




lemma timer_cancel_length [simp]: "length (timer_cancel h ts) = length ts"
  by (simp add: timer_cancel_def)





section \<open>Properties of the sun times\<close>

lemma py_asin_product: "py_asin (sin x * sin y) = Inr (arcsin (sin x * sin y))"
proof -
  have "\<bar>sin x * sin y\<bar> \<le> 1"
    unfolding abs_mult by (rule mult_le_one) simp_all
  then show ?thesis
    by (simp add: py_asin_def abs_le_iff)
qed

lemma getSunTimes_domain_error:
  assumes "acos_argument lat date < - 1 \<or> 1 < acos_argument lat date"
  shows "getSunTimes lat lng date = Inl ValueError"
proof -
  have "py_acos (acos_argument lat date) = Inl ValueError"
    using assms by (auto simp add: py_acos_def)
  then show ?thesis
    by (simp add: getSunTimes_def Let_def py_asin_product acos_argument_def)
qed


text \<open>The error reaches the caller of the daylight schedule: the first day that
  \<^verbatim>\<open>getEntries\<close> asks for is yesterday.\<close>

lemma daylight_polar:
  assumes "acos_argument lat (date_of now - 1) < - 1 \<or> 1 < acos_argument lat (date_of now - 1)"
  shows "getCurrentEntry (getSunTimes lat lng) now (Daylight (VDict d))
     = (Raises ValueError, Daylight (VDict d))"
proof -
  have s: "getSunTimes lat lng (date_of now - 1) = Inl ValueError"
    by (rule getSunTimes_domain_error [OF assms])
  have "daylight_events (getSunTimes lat lng) now delta (date_of now) (- 1) [] = Some (Inl ValueError)"
    for delta
    by (subst daylight_events.simps) (simp add: s)
  then show ?thesis
    by (simp add: getCurrentEntry_def daylight_getEntries_def Let_def)
qed







lemma getSunTimes_returns:
  assumes "- 1 \<le> acos_argument lat date" "acos_argument lat date \<le> 1"
  shows "\<exists>r. getSunTimes lat lng date = Inr r"
proof -
  have "py_acos (acos_argument lat date) = Inr (arccos (acos_argument lat date))"
    using assms by (simp add: py_acos_def)
  then show ?thesis
    by (simp add: getSunTimes_def Let_def py_asin_product acos_argument_def)
qed


section \<open>Overlapping calls of \<^verbatim>\<open>scheduleSelection\<close>\<close>

lemma scheduleSelection_steps:
  "scheduleSelection S now time s =
     (case scheduleSelection_prepare S now time s of
        (None, s') \<Rightarrow> s'
      | (Some secs, s1) \<Rightarrow> scheduleSelection_arm now secs s1)"
  by (simp add: scheduleSelection_def scheduleSelection_prepare_def scheduleSelection_arm_def Let_def)

theorem overlapping_scheduleSelection_counterexample:
  "armed_timers (scheduled idle_source)
     = [\<lparr>delay = seconds 10, started_at = seven, status = Waiting\<rparr>]
   \<and> fst (scheduleSelection_prepare example_source (seven + seconds 10)
            (Some (days 20000 + hm 18 0)) (scheduled idle_source))
     = Some (days 20000 + hm 18 0 - (seven + seconds 10))
   \<and> fst (scheduleSelection_prepare example_source (seven + seconds 10) None
            (snd (scheduleSelection_prepare example_source (seven + seconds 10)
                    (Some (days 20000 + hm 18 0)) (scheduled idle_source))))
     = Some (seconds 10)
   \<and> armed_timers
        (scheduleSelection_arm (seven + seconds 10) (seconds 10)
          (scheduleSelection_arm (seven + seconds 10) (days 20000 + hm 18 0 - (seven + seconds 10))
            (snd (scheduleSelection_prepare example_source (seven + seconds 10) None
                    (snd (scheduleSelection_prepare example_source (seven + seconds 10)
                            (Some (days 20000 + hm 18 0)) (scheduled idle_source)))))))
     = [\<lparr>delay = days 20000 + hm 18 0 - (seven + seconds 10), started_at = seven + seconds 10,
          status = Waiting\<rparr>,
        \<lparr>delay = seconds 10, started_at = seven + seconds 10, status = Waiting\<rparr>]
   \<and> \<not> timers_inv
        (scheduleSelection_arm (seven + seconds 10) (seconds 10)
          (scheduleSelection_arm (seven + seconds 10) (days 20000 + hm 18 0 - (seven + seconds 10))
            (snd (scheduleSelection_prepare example_source (seven + seconds 10) None
                    (snd (scheduleSelection_prepare example_source (seven + seconds 10)
                            (Some (days 20000 + hm 18 0)) (scheduled idle_source)))))))"
proof -
  let ?now = "seven + seconds 10"
  let ?dA = "days 20000 + hm 18 0 - (seven + seconds 10)"
  let ?c = "(scheduled idle_source)
      \<lparr>timers := [\<lparr>delay = seconds 10, started_at = seven, status = Cancelled\<rparr>]\<rparr>"
  have en: "isEnabled example_source idle_source" "\<not> isFailed example_source idle_source"
    by (simp_all add: example_source_def idle_source_def)
  have a0: "armed_timers (scheduled idle_source)
     = [\<lparr>delay = seconds 10, started_at = seven, status = Waiting\<rparr>]"
    by (simp add: armed_timers_def scheduled_def)
  have pA: "scheduleSelection_prepare example_source ?now (Some (days 20000 + hm 18 0))
      (scheduled idle_source) = (Some ?dA, ?c)"
    using en by (simp add: scheduleSelection_prepare_def cancelTimer_def timer_cancel_def scheduled_def)
  have pB: "scheduleSelection_prepare example_source ?now None ?c = (Some (seconds 10), ?c)"
    using en by (simp add: scheduleSelection_prepare_def cancelTimer_def timer_cancel_def scheduled_def)
  let ?f = "scheduleSelection_arm ?now (seconds 10) (scheduleSelection_arm ?now ?dA ?c)"
  have tf: "timers ?f
      = [\<lparr>delay = seconds 10, started_at = seven, status = Cancelled\<rparr>,
         \<lparr>delay = ?dA, started_at = ?now, status = Waiting\<rparr>,
         \<lparr>delay = seconds 10, started_at = ?now, status = Waiting\<rparr>]"
    by (simp add: scheduleSelection_arm_def scheduled_def)
  have af: "armed_timers ?f
      = [\<lparr>delay = ?dA, started_at = ?now, status = Waiting\<rparr>,
         \<lparr>delay = seconds 10, started_at = ?now, status = Waiting\<rparr>]"
    by (simp add: armed_timers_def tf)
  have ninv: "\<not> timers_inv ?f"
  proof
    assume "timers_inv ?f"
    then have "length (armed_timers ?f) \<le> 1"
      by (rule timers_inv_armed)
    then show False
      unfolding af by simp
  qed
  show ?thesis
    unfolding pA pB snd_conv fst_conv
    by (intro conjI) (rule a0 refl af ninv)+
qed

section \<open>Activation of the current entry\<close>

lemma setCurrentEntry_selectionTimer:
  "selectionTimer (snd (setCurrentEntry S now (Some e) s)) =
     selectionTimer (scheduleSelection S now (Some (getScheduledEnd now e)) s)"
  by (auto simp add: setCurrentEntry_def Let_def scheduleSelection_def cancelTimer_def
      source_checkStatus_def split: option.splits prod.splits)

lemma selectProfile_timer_enabled:
  assumes "\<not> hasClients S USER (source s)" "schedule s = Some sch"
    "getCurrentEntry sun now sch = (Returns (Some e), sch')"
    "isEnabled S (source s) \<and> \<not> isFailed S (source s)"
  shows "timers (snd (selectProfile S sun now s)) =
           timers (cancelTimer s) @
             [\<lparr>delay = getScheduledEnd now e - now, started_at = now, status = Waiting\<rparr>]
    \<and> selectionTimer (snd (selectProfile S sun now s)) = Some (length (timers s))
    \<and> fires_at (last (timers (snd (selectProfile S sun now s)))) = getScheduledEnd now e"
proof -
  let ?s0 = "s\<lparr>schedule := Some sch'\<rparr>"
  have eq: "selectProfile S sun now s = setCurrentEntry S now (Some e) ?s0"
    using assms(1-3) by (rule selectProfile_with_entry)
  obtain r3 src3 where a: "activateProfile S (getProfile e) (source ?s0) = (r3, src3)"
    by (cases "activateProfile S (getProfile e) (source ?s0)")
  obtain r4 src4 where b: "start S src3 = (r4, src4)"
    by (cases "start S src3")
  have en: "isEnabled S (source ?s0)" "\<not> isFailed S (source ?s0)"
    using assms(4) by simp_all
  have t: "timers (snd (selectProfile S sun now s)) =
           timers (cancelTimer s) @
             [\<lparr>delay = getScheduledEnd now e - now, started_at = now, status = Waiting\<rparr>]"
    unfolding eq setCurrentEntry_outcome(2) [OF a b]
    using scheduleSelection_armed(1) [OF en, of now "Some (getScheduledEnd now e)"] by simp
  have h: "selectionTimer (snd (selectProfile S sun now s)) = Some (length (timers s))"
    unfolding eq setCurrentEntry_selectionTimer
    using scheduleSelection_armed(2) [OF en, of now "Some (getScheduledEnd now e)"] by simp
  have f: "fires_at (last (timers (snd (selectProfile S sun now s)))) = getScheduledEnd now e"
    unfolding t by (simp add: fires_at_def)
  from t h f show ?thesis by (intro conjI)
qed

lemma selectProfile_timer_inactive:
  assumes "\<not> hasClients S USER (source s)" "schedule s = Some sch"
    "getCurrentEntry sun now sch = (Returns (Some e), sch')"
    "\<not> isEnabled S (source s) \<or> isFailed S (source s)"
  shows "timers (snd (selectProfile S sun now s)) = timers s
    \<and> selectionTimer (snd (selectProfile S sun now s)) = selectionTimer s"
proof -
  let ?s0 = "s\<lparr>schedule := Some sch'\<rparr>"
  have eq: "selectProfile S sun now s = setCurrentEntry S now (Some e) ?s0"
    using assms(1-3) by (rule selectProfile_with_entry)
  obtain r3 src3 where a: "activateProfile S (getProfile e) (source ?s0) = (r3, src3)"
    by (cases "activateProfile S (getProfile e) (source ?s0)")
  obtain r4 src4 where b: "start S src3 = (r4, src4)"
    by (cases "start S src3")
  have "inactive S (source ?s0)"
    using assms(4) by (simp add: inactive_def)
  then have n: "scheduleSelection S now (Some (getScheduledEnd now e)) ?s0 = ?s0"
    by (rule scheduleSelection_noop)
  have t: "timers (snd (selectProfile S sun now s)) = timers s"
    unfolding eq setCurrentEntry_outcome(2) [OF a b] n by simp
  have h: "selectionTimer (snd (selectProfile S sun now s)) = selectionTimer s"
    unfolding eq setCurrentEntry_selectionTimer n by simp
  from t h show ?thesis by (intro conjI)
qed

lemma selectProfile_activation:
  assumes "\<not> hasClients S USER (source s)" "schedule s = Some sch"
    "getCurrentEntry sun now sch = (Returns (Some e), sch')"
    "activateProfile S (getProfile e) (source s) = (r3, src3)"
    "start S src3 = (r4, src4)"
  shows "currentEntry (snd (selectProfile S sun now s)) = Some e"
    and "calls (snd (selectProfile S sun now s)) =
          calls s @ [ActivateProfile (getProfile e)] @
            (case r3 of
               None \<Rightarrow> [Start] @ (if r4 = None \<or> r4 = Some KeyError then [CheckStatus] else [])
             | Some exc \<Rightarrow> if exc = KeyError then [CheckStatus] else [])"
    and "r3 = Some KeyError \<longrightarrow>
            fst (selectProfile S sun now s) =
              (case fst (checkStatus S src3) of None \<Rightarrow> Returns () | Some x \<Rightarrow> Raises x)"
    and "r3 = None \<and> r4 = Some KeyError \<longrightarrow>
            fst (selectProfile S sun now s) =
              (case fst (checkStatus S src4) of None \<Rightarrow> Returns () | Some x \<Rightarrow> Raises x)"
proof -
  let ?s0 = "s\<lparr>schedule := Some sch'\<rparr>"
  have eq: "selectProfile S sun now s = setCurrentEntry S now (Some e) ?s0"
    using assms(1-3) by (rule selectProfile_with_entry)
  have a: "activateProfile S (getProfile e) (source ?s0) = (r3, src3)"
    using assms(4) by simp
  note facts = setCurrentEntry_outcome [OF a assms(5), of now]
  show "currentEntry (snd (selectProfile S sun now s)) = Some e"
    unfolding eq by (rule facts(1))
  show "calls (snd (selectProfile S sun now s)) =
          calls s @ [ActivateProfile (getProfile e)] @
            (case r3 of
               None \<Rightarrow> [Start] @ (if r4 = None \<or> r4 = Some KeyError then [CheckStatus] else [])
             | Some exc \<Rightarrow> if exc = KeyError then [CheckStatus] else [])"
    unfolding eq using facts(3) by simp
  show "r3 = Some KeyError \<longrightarrow>
            fst (selectProfile S sun now s) =
              (case fst (checkStatus S src3) of None \<Rightarrow> Returns () | Some x \<Rightarrow> Raises x)"
    unfolding eq using facts(4) by simp
  show "r3 = None \<and> r4 = Some KeyError \<longrightarrow>
            fst (selectProfile S sun now s) =
              (case fst (checkStatus S src4) of None \<Rightarrow> Returns () | Some x \<Rightarrow> Raises x)"
    unfolding eq using facts(4) by simp
qed

text \<open>
  C6 (as amended). When no interactive client is present and the schedule's
  \<^verbatim>\<open>getCurrentEntry\<close> returns an entry, \<^verbatim>\<open>selectProfile\<close> sets that entry as
  \<^verbatim>\<open>currentEntry\<close> and calls \<^verbatim>\<open>activateProfile\<close> with the entry's profile and then,
  unless that raised, \<^verbatim>\<open>start\<close>; a \<^verbatim>\<open>KeyError\<close> from either is suppressed and
  \<^verbatim>\<open>checkStatus\<close> follows. If the source is enabled and has not failed, the previous
  selection timer is cancelled and a new one is started that fires exactly at the
  entry's scheduled end; if the source is disabled or has failed, no timer is started
  or cancelled.
  The static schedule \<^verbatim>\<open>{"0600-1800": "wfm"}\<close> read at 07:00 on any day has the
  current profile \<^verbatim>\<open>"wfm"\<close> with the scheduled end 18:00 of the same day.
\<close>

theorem selectProfile_activates_current_entry:
  "(\<forall>S sun now (s :: 'src ServiceScheduler) sch sch' e r3 src3 r4 src4.
      \<not> hasClients S USER (source s) \<and> schedule s = Some sch
      \<and> getCurrentEntry sun now sch = (Returns (Some e), sch')
      \<and> activateProfile S (getProfile e) (source s) = (r3, src3)
      \<and> start S src3 = (r4, src4)
      \<longrightarrow>
        currentEntry (snd (selectProfile S sun now s)) = Some e
      \<and> calls (snd (selectProfile S sun now s)) =
          calls s @ [ActivateProfile (getProfile e)] @
            (case r3 of
               None \<Rightarrow> [Start] @ (if r4 = None \<or> r4 = Some KeyError then [CheckStatus] else [])
             | Some exc \<Rightarrow> if exc = KeyError then [CheckStatus] else [])
      \<and> (r3 = Some KeyError \<longrightarrow>
            fst (selectProfile S sun now s) =
              (case fst (checkStatus S src3) of None \<Rightarrow> Returns () | Some x \<Rightarrow> Raises x))
      \<and> (r3 = None \<and> r4 = Some KeyError \<longrightarrow>
            fst (selectProfile S sun now s) =
              (case fst (checkStatus S src4) of None \<Rightarrow> Returns () | Some x \<Rightarrow> Raises x))
      \<and> (isEnabled S (source s) \<and> \<not> isFailed S (source s) \<longrightarrow>
            timers (snd (selectProfile S sun now s)) =
              timers (cancelTimer s) @
                [\<lparr>delay = getScheduledEnd now e - now, started_at = now, status = Waiting\<rparr>]
          \<and> selectionTimer (snd (selectProfile S sun now s)) = Some (length (timers s))
          \<and> fires_at (last (timers (snd (selectProfile S sun now s)))) = getScheduledEnd now e)
      \<and> (\<not> isEnabled S (source s) \<or> isFailed S (source s) \<longrightarrow>
            timers (snd (selectProfile S sun now s)) = timers s
          \<and> selectionTimer (snd (selectProfile S sun now s)) = selectionTimer s))
   \<and> (\<forall>sun d.
        parse [(''scheduler'', VDict [(''type'', VStr ''static''),
                 (''schedule'', VDict [(''0600-1800'', VStr ''wfm'')])])]
          = Inr (Some (Static [TimeScheduleEntry (hm 6 0) (hm 18 0) (VStr ''wfm'')]))
      \<and> getCurrentEntry sun (days d + hm 7 0)
            (Static [TimeScheduleEntry (hm 6 0) (hm 18 0) (VStr ''wfm'')])
          = (Returns (Some (TimeScheduleEntry (hm 6 0) (hm 18 0) (VStr ''wfm''))),
             Static [TimeScheduleEntry (hm 6 0) (hm 18 0) (VStr ''wfm'')])
      \<and> getProfile (TimeScheduleEntry (hm 6 0) (hm 18 0) (VStr ''wfm'')) = VStr ''wfm''
      \<and> getScheduledEnd (days d + hm 7 0) (TimeScheduleEntry (hm 6 0) (hm 18 0) (VStr ''wfm''))
          = days d + hm 18 0)"
proof (rule conjI)
  show "\<forall>S sun now (s :: 'src ServiceScheduler) sch sch' e r3 src3 r4 src4.
      \<not> hasClients S USER (source s) \<and> schedule s = Some sch
      \<and> getCurrentEntry sun now sch = (Returns (Some e), sch')
      \<and> activateProfile S (getProfile e) (source s) = (r3, src3)
      \<and> start S src3 = (r4, src4)
      \<longrightarrow>
        currentEntry (snd (selectProfile S sun now s)) = Some e
      \<and> calls (snd (selectProfile S sun now s)) =
          calls s @ [ActivateProfile (getProfile e)] @
            (case r3 of
               None \<Rightarrow> [Start] @ (if r4 = None \<or> r4 = Some KeyError then [CheckStatus] else [])
             | Some exc \<Rightarrow> if exc = KeyError then [CheckStatus] else [])
      \<and> (r3 = Some KeyError \<longrightarrow>
            fst (selectProfile S sun now s) =
              (case fst (checkStatus S src3) of None \<Rightarrow> Returns () | Some x \<Rightarrow> Raises x))
      \<and> (r3 = None \<and> r4 = Some KeyError \<longrightarrow>
            fst (selectProfile S sun now s) =
              (case fst (checkStatus S src4) of None \<Rightarrow> Returns () | Some x \<Rightarrow> Raises x))
      \<and> (isEnabled S (source s) \<and> \<not> isFailed S (source s) \<longrightarrow>
            timers (snd (selectProfile S sun now s)) =
              timers (cancelTimer s) @
                [\<lparr>delay = getScheduledEnd now e - now, started_at = now, status = Waiting\<rparr>]
          \<and> selectionTimer (snd (selectProfile S sun now s)) = Some (length (timers s))
          \<and> fires_at (last (timers (snd (selectProfile S sun now s)))) = getScheduledEnd now e)
      \<and> (\<not> isEnabled S (source s) \<or> isFailed S (source s) \<longrightarrow>
            timers (snd (selectProfile S sun now s)) = timers s
          \<and> selectionTimer (snd (selectProfile S sun now s)) = selectionTimer s)"
  proof (intro allI impI)
    fix S :: "'src SdrSource" and sun now and s :: "'src ServiceScheduler"
      and sch sch' e r3 src3 r4 src4
    assume h: "\<not> hasClients S USER (source s) \<and> schedule s = Some sch
      \<and> getCurrentEntry sun now sch = (Returns (Some e), sch')
      \<and> activateProfile S (getProfile e) (source s) = (r3, src3)
      \<and> start S src3 = (r4, src4)"
    then have h1: "\<not> hasClients S USER (source s)" and h2: "schedule s = Some sch"
      and h3: "getCurrentEntry sun now sch = (Returns (Some e), sch')"
      and h4: "activateProfile S (getProfile e) (source s) = (r3, src3)"
      and h5: "start S src3 = (r4, src4)"
      by simp_all
    note act = selectProfile_activation [OF h1 h2 h3 h4 h5]
    have en: "isEnabled S (source s) \<and> \<not> isFailed S (source s) \<longrightarrow>
            timers (snd (selectProfile S sun now s)) =
              timers (cancelTimer s) @
                [\<lparr>delay = getScheduledEnd now e - now, started_at = now, status = Waiting\<rparr>]
          \<and> selectionTimer (snd (selectProfile S sun now s)) = Some (length (timers s))
          \<and> fires_at (last (timers (snd (selectProfile S sun now s)))) = getScheduledEnd now e"
      using selectProfile_timer_enabled [OF h1 h2 h3] by (rule impI)
    have dis: "\<not> isEnabled S (source s) \<or> isFailed S (source s) \<longrightarrow>
            timers (snd (selectProfile S sun now s)) = timers s
          \<and> selectionTimer (snd (selectProfile S sun now s)) = selectionTimer s"
      using selectProfile_timer_inactive [OF h1 h2 h3] by (rule impI)
    show "currentEntry (snd (selectProfile S sun now s)) = Some e
      \<and> calls (snd (selectProfile S sun now s)) =
          calls s @ [ActivateProfile (getProfile e)] @
            (case r3 of
               None \<Rightarrow> [Start] @ (if r4 = None \<or> r4 = Some KeyError then [CheckStatus] else [])
             | Some exc \<Rightarrow> if exc = KeyError then [CheckStatus] else [])
      \<and> (r3 = Some KeyError \<longrightarrow>
            fst (selectProfile S sun now s) =
              (case fst (checkStatus S src3) of None \<Rightarrow> Returns () | Some x \<Rightarrow> Raises x))
      \<and> (r3 = None \<and> r4 = Some KeyError \<longrightarrow>
            fst (selectProfile S sun now s) =
              (case fst (checkStatus S src4) of None \<Rightarrow> Returns () | Some x \<Rightarrow> Raises x))
      \<and> (isEnabled S (source s) \<and> \<not> isFailed S (source s) \<longrightarrow>
            timers (snd (selectProfile S sun now s)) =
              timers (cancelTimer s) @
                [\<lparr>delay = getScheduledEnd now e - now, started_at = now, status = Waiting\<rparr>]
          \<and> selectionTimer (snd (selectProfile S sun now s)) = Some (length (timers s))
          \<and> fires_at (last (timers (snd (selectProfile S sun now s)))) = getScheduledEnd now e)
      \<and> (\<not> isEnabled S (source s) \<or> isFailed S (source s) \<longrightarrow>
            timers (snd (selectProfile S sun now s)) = timers s
          \<and> selectionTimer (snd (selectProfile S sun now s)) = selectionTimer s)"
      by (intro conjI) (rule act en dis)+
  qed
next
  have p: "parse [(''scheduler'', VDict [(''type'', VStr ''static''),
                 (''schedule'', VDict [(''0600-1800'', VStr ''wfm'')])])]
          = Inr (Some (Static [TimeScheduleEntry (hm 6 0) (hm 18 0) (VStr ''wfm'')]))"
    using parse_wfm by (simp add: wfm_props_def)
  show "\<forall>sun d.
        parse [(''scheduler'', VDict [(''type'', VStr ''static''),
                 (''schedule'', VDict [(''0600-1800'', VStr ''wfm'')])])]
          = Inr (Some (Static [TimeScheduleEntry (hm 6 0) (hm 18 0) (VStr ''wfm'')]))
      \<and> getCurrentEntry sun (days d + hm 7 0)
            (Static [TimeScheduleEntry (hm 6 0) (hm 18 0) (VStr ''wfm'')])
          = (Returns (Some (TimeScheduleEntry (hm 6 0) (hm 18 0) (VStr ''wfm''))),
             Static [TimeScheduleEntry (hm 6 0) (hm 18 0) (VStr ''wfm'')])
      \<and> getProfile (TimeScheduleEntry (hm 6 0) (hm 18 0) (VStr ''wfm'')) = VStr ''wfm''
      \<and> getScheduledEnd (days d + hm 7 0) (TimeScheduleEntry (hm 6 0) (hm 18 0) (VStr ''wfm''))
          = days d + hm 18 0"
    using p wfm_current wfm_end by (intro allI conjI) simp_all
qed

theorem selectProfile_activates_current_entry_witness:
  "currentEntry (snd (selectProfile example_source example_sun seven (scheduled idle_source)))
     = Some wfm_entry
   \<and> getProfile wfm_entry = VStr ''wfm''
   \<and> calls (snd (selectProfile example_source example_sun seven (scheduled idle_source)))
     = [AddClient, ActivateProfile (VStr ''wfm''), Start, CheckStatus]
   \<and> timers (snd (selectProfile example_source example_sun seven (scheduled idle_source)))
     = [\<lparr>delay = seconds 10, started_at = seven, status = Cancelled\<rparr>,
        \<lparr>delay = hours 11, started_at = seven, status = Waiting\<rparr>]
   \<and> selectionTimer (snd (selectProfile example_source example_sun seven (scheduled idle_source)))
     = Some 1
   \<and> fires_at (last (timers (snd (selectProfile example_source example_sun seven
        (scheduled idle_source))))) = days 20000 + hm 18 0
   \<and> currentEntry (snd (selectProfile example_source example_sun seven
        (scheduled (idle_source\<lparr>enabled := False\<rparr>)))) = Some wfm_entry
   \<and> calls (snd (selectProfile example_source example_sun seven
        (scheduled (idle_source\<lparr>enabled := False\<rparr>))))
     = [AddClient, ActivateProfile (VStr ''wfm''), Start, CheckStatus]
   \<and> timers (snd (selectProfile example_source example_sun seven
        (scheduled (idle_source\<lparr>enabled := False\<rparr>))))
     = [\<lparr>delay = seconds 10, started_at = seven, status = Waiting\<rparr>]"
proof -
  let ?s = "scheduled idle_source"
  let ?src3 = "idle_source\<lparr>active_profile := Some (VStr ''wfm'')\<rparr>"
  let ?src4 = "idle_source\<lparr>active_profile := Some (VStr ''wfm''), running := True\<rparr>"
  let ?d = "scheduled (idle_source\<lparr>enabled := False\<rparr>)"
  let ?dsrc3 = "idle_source\<lparr>enabled := False, active_profile := Some (VStr ''wfm'')\<rparr>"
  let ?dsrc4 = "idle_source\<lparr>enabled := False, active_profile := Some (VStr ''wfm''), running := True\<rparr>"
  have hyp: "\<not> hasClients example_source USER (source ?s) \<and> schedule ?s = Some (Static [wfm_entry])
      \<and> getCurrentEntry example_sun seven (Static [wfm_entry])
          = (Returns (Some wfm_entry), Static [wfm_entry])
      \<and> activateProfile example_source (getProfile wfm_entry) (source ?s) = (None, ?src3)
      \<and> start example_source ?src3 = (None, ?src4)"
    using wfm_current_seven(1)
    by (simp add: example_source_def scheduled_def idle_source_def wfm_entry_def)
  have hypd: "\<not> hasClients example_source USER (source ?d) \<and> schedule ?d = Some (Static [wfm_entry])
      \<and> getCurrentEntry example_sun seven (Static [wfm_entry])
          = (Returns (Some wfm_entry), Static [wfm_entry])
      \<and> activateProfile example_source (getProfile wfm_entry) (source ?d) = (None, ?dsrc3)
      \<and> start example_source ?dsrc3 = (None, ?dsrc4)"
    using wfm_current_seven(1)
    by (simp add: example_source_def scheduled_def idle_source_def wfm_entry_def)
  have en: "isEnabled example_source (source ?s)" "\<not> isFailed example_source (source ?s)"
    by (simp_all add: example_source_def scheduled_def idle_source_def)
  have dis: "\<not> isEnabled example_source (source ?d)"
    by (simp add: example_source_def scheduled_def idle_source_def)
  have tc: "timers (cancelTimer ?s) = [\<lparr>delay = seconds 10, started_at = seven, status = Cancelled\<rparr>]"
    by (simp add: cancelTimer_def timer_cancel_def scheduled_def)
  have d: "days 20000 + hm 18 0 - seven = hours 11"
    by (simp add: seven_def days_def hm_def seconds_def hours_def)
  have l: "length (timers ?s) = 1" "calls ?s = [AddClient]" "calls ?d = [AddClient]"
    "timers ?d = [\<lparr>delay = seconds 10, started_at = seven, status = Waiting\<rparr>]"
    by (simp_all add: scheduled_def)
  have p: "getProfile wfm_entry = VStr ''wfm''"
    by (simp add: wfm_entry_def)
  note w1 = selectProfile_activates_current_entry
    [THEN conjunct1, rule_format, of example_source ?s "Static [wfm_entry]" example_sun seven
      wfm_entry "Static [wfm_entry]" None ?src3 None ?src4, OF hyp]
  note w2 = selectProfile_activates_current_entry
    [THEN conjunct1, rule_format, of example_source ?d "Static [wfm_entry]" example_sun seven
      wfm_entry "Static [wfm_entry]" None ?dsrc3 None ?dsrc4, OF hypd]
  from w1 w2 en dis show ?thesis
    unfolding tc wfm_end_seven d l p
    by (simp add: fires_at_def seven_def hours_def days_def hm_def seconds_def)
qed

end
